theory Spec2Isabelle
  imports Main
begin

unbundle bit_operations_syntax

section \<open>JavaScript values used by readme-tsdoc\<close>

text \<open>
  A JavaScript string is modelled as a \<open>string\<close>: one \<open>char\<close> per code unit, for the
  code units below 256. A value that may be \<open>undefined\<close> or \<open>null\<close> is an \<open>option\<close>.
\<close>

definition truthy :: "string option \<Rightarrow> bool" where
  \<comment> \<open>a string-or-undefined value used as a condition: \<open>undefined\<close> and \<open>''\<close> are falsy\<close>
  "truthy v = (case v of None \<Rightarrow> False | Some s \<Rightarrow> s \<noteq> [])"

definition interp :: "string option \<Rightarrow> string" where
  \<comment> \<open>\<open>${v}\<close> in a template literal\<close>
  "interp v = (case v of None \<Rightarrow> ''undefined'' | Some s \<Rightarrow> s)"

definition orElse :: "string option \<Rightarrow> string option \<Rightarrow> string option" where
  \<comment> \<open>\<open>a || b\<close>\<close>
  "orElse a b = (if truthy a then a else b)"

fun startsWith :: "string \<Rightarrow> string \<Rightarrow> bool" where
  "startsWith s [] = True"
| "startsWith [] (p # ps) = False"
| "startsWith (c # cs) (p # ps) = (c = p \<and> startsWith cs ps)"

fun includes_str :: "string \<Rightarrow> string \<Rightarrow> bool" where
  "includes_str [] p = (p = [])"
| "includes_str (c # cs) p = (startsWith (c # cs) p \<or> includes_str cs p)"

definition substring :: "string \<Rightarrow> nat \<Rightarrow> nat \<Rightarrow> string" where
  \<comment> \<open>\<open>s.substring(a, b)\<close>: both indices are clamped to the length and swapped when \<open>a > b\<close>\<close>
  "substring s a b =
     (let a' = min a (length s); b' = min b (length s)
      in take (max a' b' - min a' b') (drop (min a' b') s))"

definition substringFrom :: "string \<Rightarrow> nat \<Rightarrow> string" where
  \<comment> \<open>\<open>s.substring(a)\<close> and \<open>s.slice(a)\<close> for \<open>a \<ge> 0\<close>\<close>
  "substringFrom s a = drop a s"

definition isLineTerminator :: "char \<Rightarrow> bool" where
  "isLineTerminator c \<longleftrightarrow> c = CHR 0x0A \<or> c = CHR 0x0D"

definition isWhiteSpace :: "char \<Rightarrow> bool" where
  \<comment> \<open>what \<open>\s\<close> and \<open>trim\<close> treat as white space, among the code units below 256\<close>
  "isWhiteSpace c \<longleftrightarrow>
     c = CHR 0x09 \<or> c = CHR 0x0A \<or> c = CHR 0x0B \<or> c = CHR 0x0C \<or> c = CHR 0x0D
     \<or> c = CHR 0x20 \<or> c = CHR 0xA0"

definition trim :: "string \<Rightarrow> string" where
  "trim s = rev (dropWhile isWhiteSpace (rev (dropWhile isWhiteSpace s)))"

definition repeat :: "string \<Rightarrow> nat \<Rightarrow> string" where
  "repeat s n = concat (replicate n s)"

fun numberToString :: "nat \<Rightarrow> string" where
  "numberToString n =
     (if n < 10 then [''0123456789'' ! n]
      else numberToString (n div 10) @ [''0123456789'' ! (n mod 10)])"

declare numberToString.simps [simp del]

definition upperCaseLetters :: string where
  "upperCaseLetters = ''ABCDEFGHIJKLMNOPQRSTUVWXYZ'' @
     [CHR 0xC0, CHR 0xC1, CHR 0xC2, CHR 0xC3, CHR 0xC4, CHR 0xC5, CHR 0xC6, CHR 0xC7,
      CHR 0xC8, CHR 0xC9, CHR 0xCA, CHR 0xCB, CHR 0xCC, CHR 0xCD, CHR 0xCE, CHR 0xCF,
      CHR 0xD0, CHR 0xD1, CHR 0xD2, CHR 0xD3, CHR 0xD4, CHR 0xD5, CHR 0xD6,
      CHR 0xD8, CHR 0xD9, CHR 0xDA, CHR 0xDB, CHR 0xDC, CHR 0xDD, CHR 0xDE]"

definition lowerCaseLetters :: string where
  "lowerCaseLetters = ''abcdefghijklmnopqrstuvwxyz'' @
     [CHR 0xE0, CHR 0xE1, CHR 0xE2, CHR 0xE3, CHR 0xE4, CHR 0xE5, CHR 0xE6, CHR 0xE7,
      CHR 0xE8, CHR 0xE9, CHR 0xEA, CHR 0xEB, CHR 0xEC, CHR 0xED, CHR 0xEE, CHR 0xEF,
      CHR 0xF0, CHR 0xF1, CHR 0xF2, CHR 0xF3, CHR 0xF4, CHR 0xF5, CHR 0xF6,
      CHR 0xF8, CHR 0xF9, CHR 0xFA, CHR 0xFB, CHR 0xFC, CHR 0xFD, CHR 0xFE]"

definition toLowerCase :: "string \<Rightarrow> string" where
  "toLowerCase s =
     map (\<lambda>c. case map_of (zip upperCaseLetters lowerCaseLetters) c of
                 None \<Rightarrow> c | Some l \<Rightarrow> l) s"

definition first :: "'a list \<Rightarrow> 'a option" where
  \<comment> \<open>\<open>xs?.[0]\<close>\<close>
  "first xs = (case xs of [] \<Rightarrow> None | x # _ \<Rightarrow> Some x)"

text \<open>A call that may throw: \<open>Threw\<close>, or the value it returned.\<close>

datatype 'a attempt = Threw | Returned 'a

datatype error =
    NoExports string    \<comment> \<open>\<open>new Error(`No exports found in ${filePath}`)\<close>\<close>
  | ExecFailed string   \<comment> \<open>the exception of \<open>execSync\<close>, with the file it was asked about\<close>
  | ReadFailed string   \<comment> \<open>the exception of \<open>fs.readFileSync\<close>\<close>


section \<open>Regular expressions\<close>

text \<open>
  The regular expressions of \<^verbatim>\<open>readme-tsdoc.js\<close> are built from literals, the line-start
  assertion of the \<open>m\<close> flag, quantified character classes, an optional group and
  capture groups. \<open>ends r t i c\<close> lists, in the order in which a backtracking matcher
  tries them, the positions where a match of \<open>r\<close> that starts at index \<open>i\<close> of \<open>t\<close>
  can end, each with the captures made so far. The first element of the list for the whole
  pattern is the match that \<open>RegExp.prototype.exec\<close> reports at \<open>i\<close>.
\<close>

datatype quantifier = Greedy | Lazy

datatype regex =
    LineStart                                          \<comment> \<open>\<open>^\<close> under the \<open>m\<close> flag\<close>
  | Lit string                                         \<comment> \<open>literal characters\<close>
  | Rep quantifier nat "nat option" "char \<Rightarrow> bool"       \<comment> \<open>a class repeated \<open>{lo,hi}\<close>\<close>
  | Seq regex regex
  | Opt regex                                          \<comment> \<open>\<open>(...)?\<close>\<close>
  | Grp nat regex                                      \<comment> \<open>capture group number \<open>n\<close>\<close>

fun seq :: "regex list \<Rightarrow> regex" where
  "seq [] = Lit []"
| "seq [r] = r"
| "seq (r # rs) = Seq r (seq rs)"

fun ends :: "regex \<Rightarrow> string \<Rightarrow> nat \<Rightarrow> (nat \<rightharpoonup> string) \<Rightarrow> (nat \<times> (nat \<rightharpoonup> string)) list" where
  "ends LineStart t i c =
     (if i = 0 \<or> (i \<le> length t \<and> isLineTerminator (t ! (i - 1))) then [(i, c)] else [])"
| "ends (Lit s) t i c = (if startsWith (drop i t) s then [(i + length s, c)] else [])"
| "ends (Rep q lo hi P) t i c =
     (let n = length (takeWhile P (drop i t));
          m = (case hi of None \<Rightarrow> n | Some h \<Rightarrow> min h n);
          ks = [lo ..< Suc m]
      in map (\<lambda>k. (i + k, c)) (case q of Greedy \<Rightarrow> rev ks | Lazy \<Rightarrow> ks))"
| "ends (Seq a b) t i c = concat (map (\<lambda>(j, c'). ends b t j c') (ends a t i c))"
| "ends (Opt a) t i c = ends a t i c @ [(i, c)]"
| "ends (Grp n a) t i c = map (\<lambda>(j, c'). (j, c'(n \<mapsto> substring t i j))) (ends a t i c)"

record rmatch =
  rm_index :: nat                       \<comment> \<open>\<open>match.index\<close>\<close>
  rm_end :: nat                         \<comment> \<open>the index after the match\<close>
  rm_full :: string                     \<comment> \<open>\<open>match[0]\<close>\<close>
  rm_groups :: "nat \<rightharpoonup> string"          \<comment> \<open>\<open>match[n]\<close>, \<open>None\<close> for \<open>undefined\<close>\<close>

text \<open>\<open>exec\<close> of a global pattern with \<open>lastIndex = i\<close>: the first index from \<open>i\<close> on
  where the pattern matches.\<close>

function scan :: "regex \<Rightarrow> string \<Rightarrow> nat \<Rightarrow> rmatch option" where
  "scan r t i =
     (if length t < i then None
      else case ends r t i Map.empty of
             (j, c) # _ \<Rightarrow>
               Some \<lparr>rm_index = i, rm_end = j, rm_full = substring t i j, rm_groups = c\<rparr>
           | [] \<Rightarrow> scan r t (Suc i))"
  by pat_completeness auto
termination
  by (relation "measure (\<lambda>(r, t, i). Suc (length t) - i)") auto

declare scan.simps [simp del]

lemma ends_from: "(j, c') \<in> set (ends r t i c) \<Longrightarrow> i \<le> j"
proof (induction r arbitrary: i c j c')
  case (Seq a b)
  then obtain k c'' where "(k, c'') \<in> set (ends a t i c)" "(j, c') \<in> set (ends b t k c'')"
    by auto
  with Seq.IH show ?case by (meson le_trans)
qed (auto simp: Let_def split: if_splits)

lemma scan_Some:
  "scan r t i = Some m \<Longrightarrow>
     i \<le> rm_index m \<and> rm_index m \<le> length t \<and> rm_index m \<le> rm_end m"
proof (induction r t i rule: scan.induct)
  case (1 r t i)
  show ?case
  proof (cases "ends r t i Map.empty")
    case Nil
    with 1 show ?thesis by (auto simp: scan.simps [of r t i] split: if_splits)
  next
    case (Cons x xs)
    obtain j c where x: "x = (j, c)" by (cases x)
    have "(j, c) \<in> set (ends r t i Map.empty)" using Cons x by simp
    then have "i \<le> j" by (rule ends_from)
    with 1(2) Cons x show ?thesis by (auto simp: scan.simps [of r t i] split: if_splits)
  qed
qed

text \<open>\<open>String.prototype.matchAll\<close>: \<open>exec\<close> again and again from where the last match
  ended, one index further after an empty match.\<close>

function matchAllFrom :: "regex \<Rightarrow> string \<Rightarrow> nat \<Rightarrow> rmatch list" where
  "matchAllFrom r t i =
     (case scan r t i of
        None \<Rightarrow> []
      | Some m \<Rightarrow>
          m # matchAllFrom r t (if rm_end m = rm_index m then Suc (rm_end m) else rm_end m))"
  by pat_completeness auto
termination
proof (relation "measure (\<lambda>(r, t, i). Suc (length t) - i)", goal_cases)
  case 1
  show ?case by simp
next
  case (2 r t i m)
  then show ?case using scan_Some [of r t i m] by auto
qed

declare matchAllFrom.simps [simp del]

definition matchAll :: "regex \<Rightarrow> string \<Rightarrow> rmatch list" where
  "matchAll r t = matchAllFrom r t 0"


section \<open>The syntax tree and the type checker, as the compiler hands them over\<close>

text \<open>
  The TypeScript compiler is not part of the repository. Its nodes are records of the
  properties that \<^verbatim>\<open>readme-tsdoc.js\<close> reads; \<open>getText()\<close> of a child node is the string it
  returns; the constants are those of the \<^verbatim>\<open>typescript\<close> package.
\<close>

datatype syntaxKind =
    FunctionDeclaration | ClassDeclaration | InterfaceDeclaration | TypeAliasDeclaration
  | VariableDeclaration | VariableDeclarationList | VariableStatement
  | ExportSpecifier | AsExpression
  | Constructor | MethodDeclaration | PropertyDeclaration | GetAccessor | SetAccessor
  | ConstructSignature | MethodSignature | PropertySignature
  | AbstractKeyword | StaticKeyword | ExportKeyword | ReadonlyKeyword
  | OtherKind nat

definition NodeFlags_Const :: nat where "NodeFlags_Const = 2"
definition SymbolFlags_Alias :: nat where "SymbolFlags_Alias = 2097152"

record jsDocTag =
  tagName :: "string option"          \<comment> \<open>\<open>tag.tagName?.escapedText\<close>\<close>
  tag_escapedText :: "string option"  \<comment> \<open>\<open>tag.name?.escapedText\<close>\<close>
  tag_getText :: "string option"      \<comment> \<open>\<open>tag.name?.getText?.()\<close>\<close>
  tag_comment :: "string option"      \<comment> \<open>\<open>tag.comment\<close>\<close>

record jsDoc =
  comment :: "string option"
  tags :: "jsDocTag list option"

record typeParameter =
  tp_name :: string                   \<comment> \<open>\<open>param.name.getText()\<close>\<close>
  tp_constraint :: "string option"    \<comment> \<open>\<open>param.constraint.getText()\<close>\<close>
  tp_default :: "string option"       \<comment> \<open>\<open>param.default.getText()\<close>\<close>

record parameter =
  p_name :: string                    \<comment> \<open>\<open>param.name.getText()\<close>\<close>
  p_type :: "string option"           \<comment> \<open>\<open>param.type.getText()\<close>\<close>
  p_questionToken :: bool
  p_initializer :: bool

record nameNode =
  nn_id :: nat                        \<comment> \<open>which node it is, for the checker\<close>
  nn_getText :: string

record member =
  m_id :: nat
  m_kind :: syntaxKind
  m_name :: "nameNode option"
  m_modifiers :: "syntaxKind list option"   \<comment> \<open>the \<open>kind\<close> of each modifier\<close>
  m_jsDoc :: "jsDoc list"
  m_pos :: "nat option"
  m_line :: nat    \<comment> \<open>\<open>sourceFile.getLineAndCharacterOfPosition(member.getStart()).line\<close>\<close>
  m_parameters :: "parameter list"

text \<open>
  \<open>node.parent\<close>, \<open>node.parent.parent\<close>, ... of a declaration are the list \<open>d_ancestors\<close>,
  nearest first; an ancestor carries what \<open>isConst\<close> and \<open>extractJSDoc\<close> read of it.
\<close>

record ancestor =
  a_kind :: syntaxKind
  a_flags :: nat
  a_jsDoc :: "jsDoc list"
  a_declarationList :: "nat option"   \<comment> \<open>\<open>node.declarationList?.flags\<close>\<close>

record initializer =
  i_kind :: syntaxKind
  i_expression :: "nat option"        \<comment> \<open>the expression node, for the checker\<close>

record declarationNode =
  d_id :: nat
  d_kind :: syntaxKind
  d_flags :: nat
  d_pos :: "nat option"
  d_line :: nat    \<comment> \<open>\<open>sourceFile.getLineAndCharacterOfPosition(declaration.getStart()).line\<close>\<close>
  d_modifiers :: "syntaxKind list option"
  d_jsDoc :: "jsDoc list"
  d_ancestors :: "ancestor list"
  d_initializer :: "initializer option"
  d_typeParameters :: "typeParameter list option"
  d_parameters :: "parameter list option"
  d_members :: "member list option"
  d_type :: "string option"           \<comment> \<open>\<open>declaration.type.getText()\<close>\<close>

record symbol =
  s_valueDeclaration :: "declarationNode option"
  s_declarations :: "declarationNode list"
  s_flags :: nat

record checker =
  getAliasedSymbol :: "symbol \<Rightarrow> symbol option attempt"
  getSymbolAtLocation :: "nat option \<Rightarrow> symbol option attempt"
  typeToString :: "symbol \<Rightarrow> nat \<Rightarrow> string attempt"
    \<comment> \<open>\<open>checker.typeToString(checker.getTypeOfSymbolAtLocation(symbol, node))\<close>\<close>

record sourceFile =
  fileName :: string
  exports :: "(string \<times> symbol) list option"   \<comment> \<open>\<open>sourceFile.symbol?.exports\<close>, in order\<close>

record program =
  getTypeChecker :: checker
  findSourceFile :: "sourceFile option"
    \<comment> \<open>\<open>program.getSourceFiles().find(sf => path.resolve(sf.fileName) === path.resolve(filePath))\<close>\<close>

record env =
  createProgram :: "string \<Rightarrow> program"
  gitLsFiles :: "string \<Rightarrow> string attempt"
    \<comment> \<open>\<open>execSync(`git ls-files --full-name "${filePath}"`, {encoding: 'utf8'})\<close>\<close>


section \<open>The renderer\<close>

definition hasModifier :: "syntaxKind list option \<Rightarrow> syntaxKind \<Rightarrow> bool" where
  \<comment> \<open>\<open>node.modifiers?.some(mod => mod.kind === k)\<close>\<close>
  "hasModifier mods k = (case mods of None \<Rightarrow> False | Some ms \<Rightarrow> k \<in> set ms)"

definition hasTag :: "string \<Rightarrow> jsDocTag \<Rightarrow> bool" where
  \<comment> \<open>\<open>tag.tagName?.escapedText === n\<close>\<close>
  "hasTag n tag = (tagName tag = Some n)"

definition middot :: string where
  "middot = [CHR 0x20, CHR 0xB7, CHR 0x20]"

subsection \<open>Deep links\<close>

definition gitlabRegex :: regex where
  \<comment> \<open>\<open>/:\/\/(www\.)?gitlab\.com/\<close>\<close>
  "gitlabRegex = seq [Lit ''://'', Opt (Grp 1 (Lit ''www.'')), Lit ''gitlab.com'']"

definition stripTrailingSlash :: "string \<Rightarrow> string" where
  \<comment> \<open>\<open>repoUrl.replace(/\/$/, '')\<close>\<close>
  "stripTrailingSlash s = (if s \<noteq> [] \<and> last s = CHR ''/'' then butlast s else s)"

definition generateDeepLink :: "env \<Rightarrow> string \<Rightarrow> string \<Rightarrow> nat \<Rightarrow> error + string option" where
  "generateDeepLink e repoUrl filePath lineNumber =
     (case gitLsFiles e filePath of
        Threw \<Rightarrow> Inl (ExecFailed filePath)
      | Returned out \<Rightarrow>
          (let relativePath = trim out in
           if relativePath = [] then Inr None
           else
             (let baseUrl = stripTrailingSlash repoUrl in
              if scan gitlabRegex baseUrl 0 \<noteq> None
              then Inr (Some (baseUrl @ ''/-/blob/main/'' @ relativePath @ ''#L''
                              @ numberToString lineNumber))
              else Inr (Some (baseUrl @ ''/blob/main/'' @ relativePath @ ''#L''
                              @ numberToString lineNumber)))))"

definition linkLabel :: "env \<Rightarrow> string option \<Rightarrow> bool \<Rightarrow> string \<Rightarrow> nat \<Rightarrow> string \<Rightarrow> error + string" where
  \<comment> \<open>the block "Add an optional deep link to the type label", shared by symbols and
      members: \<open>located\<close> is the rest of the condition after \<open>repoUrl &&\<close>\<close>
  "linkLabel e repoUrl located file line label =
     (if truthy repoUrl \<and> located then
        (case generateDeepLink e (interp repoUrl) file (line + 1) of
           Inl err \<Rightarrow> Inl err
         | Inr None \<Rightarrow> Inr label
         | Inr (Some deepLink) \<Rightarrow>
             Inr (if deepLink \<noteq> [] then ''['' @ label @ ''](''  @ deepLink @ '')'' else label))
      else Inr label)"

subsection \<open>Resolution, classification and documentation comments\<close>

definition declarationOf :: "symbol \<Rightarrow> declarationNode option" where
  \<comment> \<open>\<open>symbol.valueDeclaration || symbol.declarations?.[0]\<close>\<close>
  "declarationOf s =
     (case s_valueDeclaration s of Some d \<Rightarrow> Some d | None \<Rightarrow> first (s_declarations s))"

definition resolveSymbol ::
  "symbol \<Rightarrow> checker \<Rightarrow> declarationNode option \<times> symbol \<times> declarationNode option" where
  \<comment> \<open>returns \<open>(declaration, originalSymbol, exportDeclaration)\<close>\<close>
  "resolveSymbol s chk =
     (let decl = declarationOf s; exportDeclaration = decl in
      case decl of
        None \<Rightarrow> (decl, s, exportDeclaration)
      | Some d \<Rightarrow>
          if d_kind d = ExportSpecifier \<and> s_flags s AND SymbolFlags_Alias \<noteq> 0 then
            (case getAliasedSymbol chk s of
               Returned (Some aliasedSymbol) \<Rightarrow>
                 (case s_valueDeclaration aliasedSymbol of
                    Some vd \<Rightarrow> (Some vd, aliasedSymbol, exportDeclaration)
                  | None \<Rightarrow> (decl, s, exportDeclaration))
             | _ \<Rightarrow> (decl, s, exportDeclaration))
          else if d_kind d = VariableDeclaration
                  \<and> map_option i_kind (d_initializer d) = Some AsExpression then
            (case Option.bind (d_initializer d) i_expression of
               None \<Rightarrow> (decl, s, exportDeclaration)
             | Some expr \<Rightarrow>
                 (case getSymbolAtLocation chk (Some expr) of
                    Returned (Some innerSymbol) \<Rightarrow>
                      (case s_valueDeclaration innerSymbol of
                         Some vd \<Rightarrow> (Some vd, innerSymbol, exportDeclaration)
                       | None \<Rightarrow> (decl, s, exportDeclaration))
                  | _ \<Rightarrow> (decl, s, exportDeclaration)))
          else (decl, s, exportDeclaration))"

definition getTypeInfo :: "symbol \<Rightarrow> declarationNode \<Rightarrow> checker \<Rightarrow> string option" where
  "getTypeInfo s d chk =
     (case typeToString chk s (d_id d) of Threw \<Rightarrow> None | Returned str \<Rightarrow> Some str)"

fun isConstLoop :: "ancestor list \<Rightarrow> bool" where
  "isConstLoop [] = False"
| "isConstLoop (node # parents) =
     (if a_flags node AND NodeFlags_Const \<noteq> 0 then True
      else if a_kind node = VariableStatement then
        (case a_declarationList node of
           None \<Rightarrow> False
         | Some flags \<Rightarrow> flags AND NodeFlags_Const \<noteq> 0)
      else isConstLoop parents)"

definition isConst :: "declarationNode \<Rightarrow> bool" where
  \<comment> \<open>the loop starts at the declaration itself and follows \<open>parent\<close>\<close>
  "isConst d =
     isConstLoop (\<lparr>a_kind = d_kind d, a_flags = d_flags d, a_jsDoc = d_jsDoc d,
                    a_declarationList = None\<rparr> # d_ancestors d)"

definition getTypeLabel :: "declarationNode \<Rightarrow> string option \<Rightarrow> string" where
  "getTypeLabel d typeString =
     (let kind = d_kind d; ts = interp typeString in
      if kind = FunctionDeclaration then ''function''
      else if kind = ClassDeclaration then
        (if hasModifier (d_modifiers d) AbstractKeyword then ''abstract class'' else ''class'')
      else if kind = InterfaceDeclaration then ''interface''
      else if kind = TypeAliasDeclaration then ''type''
      else if kind = VariableDeclaration then
        (if truthy typeString \<and> (includes_str ts ''=>'' \<or> startsWith ts ''('') then ''function''
         else if truthy typeString \<and> startsWith ts ''typeof '' \<and> \<not> includes_str ts ''=>''
         then ''class''
         else if isConst d then ''constant'' else ''variable'')
      else if typeString \<noteq> None \<and> includes_str ts ''=>'' then ''function''
      else ''value'')"

definition extractJSDocOf :: "syntaxKind \<Rightarrow> jsDoc list \<Rightarrow> ancestor list \<Rightarrow> jsDoc option" where
  "extractJSDocOf kind docs parents =
     (case first docs of
        Some j \<Rightarrow> Some j
      | None \<Rightarrow>
          if kind = VariableDeclaration then
            (case parents of
               [] \<Rightarrow> None
             | parent # grandparents \<Rightarrow>
                 (case first (a_jsDoc parent) of
                    Some j \<Rightarrow> Some j
                  | None \<Rightarrow>
                      (case grandparents of
                         [] \<Rightarrow> None
                       | grandparent # _ \<Rightarrow> first (a_jsDoc grandparent))))
          else None)"

definition extractJSDoc :: "declarationNode option \<Rightarrow> jsDoc option" where
  "extractJSDoc decl =
     (case decl of
        None \<Rightarrow> None
      | Some d \<Rightarrow> extractJSDocOf (d_kind d) (d_jsDoc d) (d_ancestors d))"

definition extractJSDocMember :: "member \<Rightarrow> jsDoc option" where
  \<comment> \<open>\<open>extractJSDoc(member)\<close>: an element of a class or interface body is not a variable
      declaration, so only its own comment is looked at\<close>
  "extractJSDocMember m = first (m_jsDoc m)"

subsection \<open>Blocks of a fragment\<close>

definition generateJSDocTags :: "jsDoc option \<Rightarrow> string" where
  "generateJSDocTags doc =
     (case Option.bind doc tags of
        None \<Rightarrow> []
      | Some ts \<Rightarrow>
          (let returnTag = find (hasTag ''returns'') ts;
               throwsTags = filter (hasTag ''throws'') ts;
               exampleTags = filter (hasTag ''example'') ts
           in (if truthy (Option.bind returnTag tag_comment)
               then ''**Returns:** '' @ interp (Option.bind returnTag tag_comment)
                    @ ''\<newline>\<newline>''
               else [])
              @ (if throwsTags \<noteq> []
                 then ''**Throws:**\<newline>\<newline>''
                      @ concat (map (\<lambda>tag. ''- '' @ interp (tag_comment tag) @ ''\<newline>'')
                                    throwsTags)
                      @ ''\<newline>''
                 else [])
              @ (if exampleTags \<noteq> []
                 then ''**Examples:**\<newline>\<newline>''
                      @ concat (map (\<lambda>tag. interp (tag_comment tag) @ ''\<newline>\<newline>'')
                                    exampleTags)
                 else [])))"

definition tagParamName :: "jsDocTag \<Rightarrow> string" where
  \<comment> \<open>\<open>tag.name?.escapedText || tag.name?.getText?.() || 'unknown'\<close>\<close>
  "tagParamName tag =
     interp (orElse (orElse (tag_escapedText tag) (tag_getText tag)) (Some ''unknown''))"

definition generateJSDocBasedFunctionDoc :: "jsDoc \<Rightarrow> string" where
  "generateJSDocBasedFunctionDoc doc =
     (let paramTags = filter (hasTag ''param'') (case tags doc of None \<Rightarrow> [] | Some ts \<Rightarrow> ts)
      in (if paramTags \<noteq> []
          then ''**Parameters:**\<newline>\<newline>''
               @ concat (map (\<lambda>tag. ''- `'' @ tagParamName tag @ ''` - ''
                                     @ interp (orElse (tag_comment tag) (Some []))
                                     @ ''\<newline>'') paramTags)
               @ ''\<newline>''
          else [])
         @ generateJSDocTags (Some doc))"

definition templateDocs :: "typeParameter list \<Rightarrow> jsDoc option \<Rightarrow> (string \<rightharpoonup> string)" where
  \<comment> \<open>the \<open>Map\<close> filled by the first loop: the n-th \<open>@template\<close> tag documents the n-th
      type parameter; a later entry for the same name replaces an earlier one\<close>
  "templateDocs typeParameters doc =
     (case Option.bind doc tags of
        None \<Rightarrow> Map.empty
      | Some ts \<Rightarrow>
          fold (\<lambda>(param, templateTag) docs.
                  let c = interp (orElse (tag_comment templateTag) (Some []));
                      cleanComment = (if startsWith c ''- '' then substringFrom c 2 else c)
                  in docs(tp_name param \<mapsto> cleanComment))
               (zip typeParameters (filter (hasTag ''template'') ts)) Map.empty)"

definition generateTypeParameters :: "typeParameter list \<Rightarrow> jsDoc option \<Rightarrow> string" where
  "generateTypeParameters typeParameters doc =
     ''**Type Parameters:**\<newline>\<newline>''
     @ concat (map (\<lambda>param.
         let name = tp_name param;
             constraint = (case tp_constraint param of
                             Some c \<Rightarrow> '' extends '' @ c | None \<Rightarrow> []);
             defaultType = (case tp_default param of Some d \<Rightarrow> '' = '' @ d | None \<Rightarrow> []);
             cmt = templateDocs typeParameters doc name;
             commentText = (if truthy cmt then '' - '' @ interp cmt else [])
         in ''- `'' @ name @ constraint @ defaultType @ ''`'' @ commentText @ ''\<newline>'')
       typeParameters)
     @ ''\<newline>''"

definition generateParameters :: "parameter list \<Rightarrow> jsDoc list \<Rightarrow> string" where
  \<comment> \<open>\<open>generateParameters(declaration)\<close> reads \<open>declaration.parameters\<close> and
      \<open>declaration.jsDoc\<close>, here its two arguments\<close>
  "generateParameters params docs =
     ''**Parameters:**\<newline>\<newline>''
     @ concat (map (\<lambda>param.
         let name = p_name param;
             type = (case p_type param of Some t \<Rightarrow> t | None \<Rightarrow> ''any'');
             isOptional = (if p_questionToken param then ''?'' else []);
             hasDefault = (if p_initializer param then '' (optional)'' else []);
             cmt = (case Option.bind (first docs) tags of
                      None \<Rightarrow> []
                    | Some ts \<Rightarrow>
                        (let paramTag = find (\<lambda>tag. hasTag ''param'' tag
                                 \<and> (tag_escapedText tag = Some name \<or> tag_getText tag = Some name)) ts
                         in if truthy (Option.bind paramTag tag_comment)
                            then '' - '' @ interp (Option.bind paramTag tag_comment) else []))
         in ''- `'' @ name @ isOptional @ '': '' @ type @ ''`'' @ hasDefault @ cmt @ ''\<newline>'')
       params)
     @ ''\<newline>''"

definition generateFunctionDoc :: "declarationNode \<Rightarrow> string \<Rightarrow> jsDoc option \<Rightarrow> string" where
  "generateFunctionDoc d typeString jsDocObject =
     (let doc = ''**Signature:** `'' @ typeString @ ''`\<newline>\<newline>'';
          resolvedJSDoc = (case jsDocObject of Some j \<Rightarrow> Some j | None \<Rightarrow> first (d_jsDoc d));
          fromSyntax =
            doc
            @ (case d_typeParameters d of
                 Some (tp # tps) \<Rightarrow> generateTypeParameters (tp # tps) resolvedJSDoc
               | _ \<Rightarrow> [])
            @ (case d_parameters d of
                 Some (q # qs) \<Rightarrow> generateParameters (q # qs) (d_jsDoc d)
               | _ \<Rightarrow> [])
            @ generateJSDocTags resolvedJSDoc
      in case resolvedJSDoc of
           Some j \<Rightarrow>
             if d_kind d = VariableDeclaration \<and> tags j \<noteq> None
             then doc @ generateJSDocBasedFunctionDoc j
             else fromSyntax
         | None \<Rightarrow> fromSyntax)"

subsection \<open>Classes and their members\<close>

definition getMemberType :: "member \<Rightarrow> bool \<Rightarrow> string" where
  "getMemberType m isStatic =
     (let abstractPrefix = (if hasModifier (m_modifiers m) AbstractKeyword then ''abstract '' else []);
          staticPrefix = (if isStatic then ''static '' else []);
          prefix = abstractPrefix @ staticPrefix
      in prefix @
         (if m_kind m = MethodDeclaration then ''method''
          else if m_kind m = PropertyDeclaration then ''property''
          else if m_kind m = GetAccessor then ''getter''
          else if m_kind m = SetAccessor then ''setter''
          else if m_kind m = ConstructSignature then ''constructor''
          else ''member''))"

definition memberTypeBlock :: "member \<Rightarrow> checker \<Rightarrow> jsDoc option \<Rightarrow> string" where
  \<comment> \<open>the \<open>try\<close> block of \<open>generateClassMemberDoc\<close>\<close>
  "memberTypeBlock m chk jsDocObject =
     (case getSymbolAtLocation chk (map_option nn_id (m_name m)) of
        Threw \<Rightarrow> ''*Type information unavailable*\<newline>\<newline>''
      | Returned None \<Rightarrow> []
      | Returned (Some s) \<Rightarrow>
          (case typeToString chk s (m_id m) of
             Threw \<Rightarrow> ''*Type information unavailable*\<newline>\<newline>''
           | Returned typeString \<Rightarrow>
               if m_kind m = MethodDeclaration then
                 ''**Signature:** `'' @ typeString @ ''`\<newline>\<newline>''
                 @ generateParameters (m_parameters m) (m_jsDoc m)
                 @ generateJSDocTags jsDocObject
               else
                 ''**Type:** `'' @ typeString @ ''`\<newline>\<newline>''
                 @ (let exampleTags = filter (hasTag ''example'')
                          (case Option.bind jsDocObject tags of None \<Rightarrow> [] | Some ts \<Rightarrow> ts)
                    in if exampleTags \<noteq> []
                       then ''**Examples:**\<newline>\<newline>''
                            @ concat (map (\<lambda>tag. interp (tag_comment tag) @ ''\<newline>\<newline>'')
                                          exampleTags)
                       else [])))"

definition generateClassMemberDoc ::
  "env \<Rightarrow> member \<Rightarrow> checker \<Rightarrow> bool \<Rightarrow> string \<Rightarrow> string \<Rightarrow> sourceFile \<Rightarrow> string option
     \<Rightarrow> error + string" where
  "generateClassMemberDoc e m chk isStatic headingPrefix className sf repoUrl =
     (let memberName =
            (if truthy (map_option nn_getText (m_name m)) then interp (map_option nn_getText (m_name m))
             else if m_kind m = ConstructSignature then ''new'' else ''unknown'');
          prefix = (if isStatic then className
                    else toLowerCase (take 1 className) @ substringFrom className 1);
          heading = prefix @ ''.'' @ memberName
      in case linkLabel e repoUrl (m_pos m \<noteq> None) (fileName sf) (m_line m)
                (getMemberType m isStatic) of
           Inl err \<Rightarrow> Inl err
         | Inr memberType \<Rightarrow>
             (let jsDocObject = extractJSDocMember m in
              Inr (headingPrefix @ ''# '' @ heading @ middot @ memberType @ ''\<newline>\<newline>''
                   @ (if truthy (Option.bind jsDocObject comment)
                      then interp (Option.bind jsDocObject comment) @ ''\<newline>\<newline>'' else [])
                   @ memberTypeBlock m chk jsDocObject)))"

fun collect :: "('a \<Rightarrow> error + string) \<Rightarrow> 'a list \<Rightarrow> string \<Rightarrow> error + string" where
  \<comment> \<open>\<open>for (x of xs) doc += f(x)\<close>, left at the first exception\<close>
  "collect f [] doc = Inr doc"
| "collect f (x # xs) doc =
     (case f x of Inl err \<Rightarrow> Inl err | Inr piece \<Rightarrow> collect f xs (doc @ piece))"

definition isStaticMember :: "member \<Rightarrow> bool" where
  "isStaticMember m = hasModifier (m_modifiers m) StaticKeyword"

definition publicMembers :: "declarationNode \<Rightarrow> member list" where
  "publicMembers d =
     filter (\<lambda>m. \<not> (case m_name m of None \<Rightarrow> False | Some n \<Rightarrow> startsWith (nn_getText n) ''_'')
                 \<and> m_kind m \<noteq> Constructor)
            (case d_members d of None \<Rightarrow> [] | Some ms \<Rightarrow> ms)"

definition staticMembers :: "declarationNode \<Rightarrow> member list" where
  "staticMembers d = filter isStaticMember (publicMembers d)"

definition instanceMembers :: "declarationNode \<Rightarrow> member list" where
  "instanceMembers d = filter (\<lambda>m. \<not> isStaticMember m) (publicMembers d)"

definition constructorParameters :: "declarationNode \<Rightarrow> string" where
  \<comment> \<open>the block "Extract constructor documentation"\<close>
  "constructorParameters d =
     (let ctor = find (\<lambda>m. m_kind m = Constructor)
                      (case d_members d of None \<Rightarrow> [] | Some ms \<Rightarrow> ms);
          constructorJSDoc = Option.bind ctor extractJSDocMember
      in case Option.bind constructorJSDoc tags of
           None \<Rightarrow> []
         | Some ts \<Rightarrow>
             (let paramTags = filter (hasTag ''param'') ts in
              if paramTags \<noteq> []
              then ''**Constructor Parameters:**\<newline>\<newline>''
                   @ concat (map (\<lambda>tag. ''- `'' @ tagParamName tag @ ''`: ''
                                         @ interp (orElse (tag_comment tag) (Some []))
                                         @ ''\<newline>'') paramTags)
                   @ ''\<newline>''
              else []))"

definition generateClassDoc ::
  "env \<Rightarrow> declarationNode \<Rightarrow> string \<Rightarrow> checker \<Rightarrow> string \<Rightarrow> string \<Rightarrow> sourceFile
     \<Rightarrow> string option \<Rightarrow> error + string" where
  "generateClassDoc e d typeString chk headingPrefix className sf repoUrl =
     (if d_kind d = VariableDeclaration then Inr (''**Type:** `'' @ typeString @ ''`\<newline>\<newline>'')
      else
        (let doc = (case d_typeParameters d of
                      Some (tp # tps) \<Rightarrow>
                        generateTypeParameters (tp # tps) (extractJSDoc (Some d))
                    | _ \<Rightarrow> [])
                   @ generateJSDocTags (extractJSDoc (Some d))
                   @ constructorParameters d
         in collect (\<lambda>m. generateClassMemberDoc e m chk (m \<in> set (staticMembers d))
                             headingPrefix className sf repoUrl)
                    (staticMembers d @ instanceMembers d) doc))"

subsection \<open>Symbols and files\<close>

definition generateTypeSpecificDoc ::
  "env \<Rightarrow> declarationNode \<Rightarrow> string option \<Rightarrow> checker \<Rightarrow> string \<Rightarrow> string \<Rightarrow> sourceFile
     \<Rightarrow> string option \<Rightarrow> jsDoc option \<Rightarrow> error + string" where
  "generateTypeSpecificDoc e d typeString chk headingPrefix name sf repoUrl jsDocObject =
     (if \<not> truthy typeString then Inr ''*Type information unavailable*\<newline>\<newline>''
      else
        (let kind = d_kind d; ts = interp typeString in
         if kind = VariableDeclaration \<and> (includes_str ts ''=>'' \<or> startsWith ts ''('')
         then Inr (generateFunctionDoc d ts jsDocObject)
         else if kind = VariableDeclaration \<and> startsWith ts ''typeof ''
         then generateClassDoc e d ts chk headingPrefix name sf repoUrl
         else if kind = FunctionDeclaration then Inr (generateFunctionDoc d ts jsDocObject)
         else if kind = ClassDeclaration \<or> kind = InterfaceDeclaration
         then generateClassDoc e d ts chk headingPrefix name sf repoUrl
         else if kind = TypeAliasDeclaration
         then Inr (''**Type:** `'' @ (case d_type d of Some actual \<Rightarrow> actual | None \<Rightarrow> ts)
                   @ ''`\<newline>\<newline>'')
         else Inr (''**Value:** `'' @ ts @ ''`\<newline>\<newline>'')))"

definition symbolJSDoc :: "declarationNode option \<Rightarrow> declarationNode option \<Rightarrow> jsDoc option" where
  \<comment> \<open>\<open>extractJSDoc(exportDeclaration) || extractJSDoc(declaration)\<close>\<close>
  "symbolJSDoc exportDeclaration decl =
     (case extractJSDoc exportDeclaration of
        Some j \<Rightarrow> Some j
      | None \<Rightarrow> extractJSDoc decl)"

definition generateSymbolDoc ::
  "env \<Rightarrow> string \<Rightarrow> symbol \<Rightarrow> checker \<Rightarrow> string \<Rightarrow> sourceFile \<Rightarrow> string option
     \<Rightarrow> error + string" where
  "generateSymbolDoc e name s chk headingPrefix sf repoUrl =
     (case resolveSymbol s chk of
        (None, originalSymbol, exportDeclaration) \<Rightarrow>
          Inr (headingPrefix @ '' '' @ name @ ''\<newline>\<newline>*No declaration found*\<newline>\<newline>'')
      | (Some d, originalSymbol, exportDeclaration) \<Rightarrow>
          (let typeInfo = getTypeInfo originalSymbol d chk in
           case linkLabel e repoUrl (d_pos d \<noteq> None) (fileName sf) (d_line d)
                  (getTypeLabel d typeInfo) of
             Inl err \<Rightarrow> Inl err
           | Inr typeLabel \<Rightarrow>
               (let jsDocObject = symbolJSDoc exportDeclaration (Some d);
                    doc = headingPrefix @ '' '' @ name @ middot @ typeLabel @ ''\<newline>\<newline>''
                          @ (if truthy (Option.bind jsDocObject comment)
                             then interp (Option.bind jsDocObject comment) @ ''\<newline>\<newline>''
                             else [])
                in case generateTypeSpecificDoc e d typeInfo chk headingPrefix name sf repoUrl
                          jsDocObject of
                     Inl err \<Rightarrow> Inl err
                   | Inr body \<Rightarrow> Inr (doc @ body))))"

definition generateMarkdownDoc :: "env \<Rightarrow> string \<Rightarrow> string \<Rightarrow> string option \<Rightarrow> error + string" where
  "generateMarkdownDoc e filePath headingPrefix repoUrl =
     (let prog = createProgram e filePath; chk = getTypeChecker prog in
      case findSourceFile prog of
        None \<Rightarrow> Inl (NoExports filePath)
      | Some sf \<Rightarrow>
          (case exports sf of
             None \<Rightarrow> Inl (NoExports filePath)
           | Some table \<Rightarrow>
               collect (\<lambda>(name, s). generateSymbolDoc e name s chk headingPrefix sf repoUrl)
                       table []))"


section \<open>The document splicer\<close>

definition headingRegex :: regex where
  \<comment> \<open>\<open>/^(#{1,6})\s+/gm\<close>\<close>
  "headingRegex =
     seq [LineStart, Grp 1 (Rep Greedy 1 (Some 6) (\<lambda>c. c = CHR ''#'')),
          Rep Greedy 1 None isWhiteSpace]"

definition markerRegex :: "string \<Rightarrow> regex" where
  \<comment> \<open>\<open>(^(#{1,6})\s+)?(.*?\n${escapedSearchPhrase}[ `]*([^`: ]+)[`: ]*\n)\<close> with the flags
      \<open>gm\<close>; the escaping puts a backslash before every character of the phrase that the
      pattern syntax would read as an operator, so the phrase stands in the pattern as a
      literal\<close>
  "markerRegex searchPhrase =
     seq [Opt (Grp 1 (seq [LineStart, Grp 2 (Rep Greedy 1 (Some 6) (\<lambda>c. c = CHR ''#'')),
                           Rep Greedy 1 None isWhiteSpace])),
          Grp 3 (seq [Rep Lazy 0 None (\<lambda>c. \<not> isLineTerminator c),
                      Lit ''\<newline>'',
                      Lit searchPhrase,
                      Rep Greedy 0 None (\<lambda>c. c = CHR '' '' \<or> c = CHR 0x60),
                      Grp 4 (Rep Greedy 1 None
                               (\<lambda>c. \<not> (c = CHR 0x60 \<or> c = CHR '':'' \<or> c = CHR '' ''))),
                      Rep Greedy 0 None (\<lambda>c. c = CHR 0x60 \<or> c = CHR '':'' \<or> c = CHR '' ''),
                      Lit ''\<newline>''])]"

subsection \<open>What a match of the patterns looks like\<close>

lemma scan_ends:
  "scan r t i = Some m \<Longrightarrow>
     i \<le> rm_index m \<and> rm_index m \<le> length t
     \<and> (rm_end m, rm_groups m) \<in> set (ends r t (rm_index m) Map.empty)
     \<and> rm_full m = substring t (rm_index m) (rm_end m)"
proof (induction r t i rule: scan.induct)
  case (1 r t i)
  show ?case
  proof (cases "ends r t i Map.empty")
    case Nil
    with 1 show ?thesis by (auto simp: scan.simps [of r t i] split: if_splits)
  next
    case (Cons x xs)
    obtain j c where x: "x = (j, c)" by (cases x)
    from 1(2) Cons x show ?thesis by (auto simp: scan.simps [of r t i] split: if_splits)
  qed
qed

lemma in_ends_LineStart:
  "(j, c') \<in> set (ends LineStart t i c) \<longleftrightarrow>
     j = i \<and> c' = c \<and> (i = 0 \<or> (i \<le> length t \<and> isLineTerminator (t ! (i - 1))))"
  by auto

lemma in_ends_Lit:
  "(j, c') \<in> set (ends (Lit s) t i c) \<longleftrightarrow> j = i + length s \<and> c' = c \<and> startsWith (drop i t) s"
  by auto

lemma set_ends_Rep:
  "set (ends (Rep q lo hi P) t i c) =
     (\<lambda>k. (i + k, c)) ` {k. lo \<le> k \<and> k \<le> length (takeWhile P (drop i t))
                              \<and> (\<forall>h. hi = Some h \<longrightarrow> k \<le> h)}"
proof -
  have "{lo..<Suc (case hi of None \<Rightarrow> length (takeWhile P (drop i t))
                    | Some h \<Rightarrow> min h (length (takeWhile P (drop i t))))}
        = {k. lo \<le> k \<and> k \<le> length (takeWhile P (drop i t)) \<and> (\<forall>h. hi = Some h \<longrightarrow> k \<le> h)}"
    by (auto split: option.splits)
  then show ?thesis
    by (cases q) (simp_all add: Let_def del: upt_Suc)
qed

lemma in_ends_Rep:
  "(j, c') \<in> set (ends (Rep q lo hi P) t i c) \<longleftrightarrow>
     c' = c \<and> i + lo \<le> j \<and> j \<le> i + length (takeWhile P (drop i t))
     \<and> (\<forall>h. hi = Some h \<longrightarrow> j \<le> i + h)"
proof -
  have "(j, c') \<in> set (ends (Rep q lo hi P) t i c) \<longleftrightarrow>
        c' = c \<and> (\<exists>k. j = i + k \<and> lo \<le> k \<and> k \<le> length (takeWhile P (drop i t))
                        \<and> (\<forall>h. hi = Some h \<longrightarrow> k \<le> h))"
    unfolding set_ends_Rep by auto
  also have "\<dots> \<longleftrightarrow> c' = c \<and> i + lo \<le> j \<and> j \<le> i + length (takeWhile P (drop i t))
     \<and> (\<forall>h. hi = Some h \<longrightarrow> j \<le> i + h)"
  proof (intro conj_cong refl iffI)
    assume "\<exists>k. j = i + k \<and> lo \<le> k \<and> k \<le> length (takeWhile P (drop i t))
                  \<and> (\<forall>h. hi = Some h \<longrightarrow> k \<le> h)"
    then show "i + lo \<le> j \<and> j \<le> i + length (takeWhile P (drop i t))
               \<and> (\<forall>h. hi = Some h \<longrightarrow> j \<le> i + h)" by auto
  next
    assume a: "i + lo \<le> j \<and> j \<le> i + length (takeWhile P (drop i t))
               \<and> (\<forall>h. hi = Some h \<longrightarrow> j \<le> i + h)"
    show "\<exists>k. j = i + k \<and> lo \<le> k \<and> k \<le> length (takeWhile P (drop i t))
                  \<and> (\<forall>h. hi = Some h \<longrightarrow> k \<le> h)"
      using a by (intro exI [of _ "j - i"]) auto
  qed
  finally show ?thesis .
qed

lemma in_ends_Seq:
  "(j, c') \<in> set (ends (Seq a b) t i c) \<longleftrightarrow>
     (\<exists>k c''. (k, c'') \<in> set (ends a t i c) \<and> (j, c') \<in> set (ends b t k c''))"
  by auto

lemma in_ends_Opt:
  "(j, c') \<in> set (ends (Opt a) t i c) \<longleftrightarrow> (j, c') \<in> set (ends a t i c) \<or> (j = i \<and> c' = c)"
  by auto

lemma in_ends_Grp:
  "(j, c') \<in> set (ends (Grp n a) t i c) \<longleftrightarrow>
     (\<exists>c''. (j, c'') \<in> set (ends a t i c) \<and> c' = c''(n \<mapsto> substring t i j))"
  by auto

lemmas in_ends = in_ends_LineStart in_ends_Lit in_ends_Rep in_ends_Seq in_ends_Opt in_ends_Grp

lemma startsWith_iff: "startsWith s p \<longleftrightarrow> take (length p) s = p \<and> length p \<le> length s"
  by (induction s p rule: startsWith.induct) auto

lemma run_chars:
  assumes "k \<le> length (takeWhile P (drop i t))"
  shows "\<forall>x \<in> set (take k (drop i t)). P x"
proof -
  have "take k (drop i t) = take k (takeWhile P (drop i t) @ dropWhile P (drop i t))"
    by simp
  also have "\<dots> = take k (takeWhile P (drop i t))"
    using assms by (simp del: takeWhile_dropWhile_id)
  finally show ?thesis
    by (metis in_set_takeD set_takeWhileD)
qed

lemma run_length: "i + length (takeWhile P (drop i t)) \<le> max i (length t)"
proof -
  have "length (takeWhile P (drop i t)) \<le> length (drop i t)"
    by (rule length_takeWhile_le)
  then show ?thesis by auto
qed


declare ends.simps [simp del]

lemma heading_ends:
  assumes "(j, c) \<in> set (ends headingRegex t i c0)"
  shows "\<exists>n. 1 \<le> n \<and> n \<le> 6 \<and> c = c0(1 \<mapsto> replicate n (CHR ''#''))
             \<and> take n (drop i t) = replicate n (CHR ''#'') \<and> i + n < j \<and> j \<le> length t"
proof -
  from assms obtain k where
    k1: "i + 1 \<le> k" and
    k2: "k \<le> i + length (takeWhile (\<lambda>c. c = CHR ''#'') (drop i t))" and k6: "k \<le> i + 6" and
    c: "c = c0(1 \<mapsto> substring t i k)" and
    j1: "k + 1 \<le> j" and j2: "j \<le> k + length (takeWhile isWhiteSpace (drop k t))"
    by (auto simp: headingRegex_def in_ends)
  define n where "n = k - i"
  have n: "1 \<le> n" "n \<le> 6" "k = i + n" using k1 k6 by (auto simp: n_def)
  have nrun: "n \<le> length (takeWhile (\<lambda>c. c = CHR ''#'') (drop i t))" using k2 n by simp
  have "length (takeWhile (\<lambda>c. c = CHR ''#'') (drop i t)) \<le> length (drop i t)"
    by (rule length_takeWhile_le)
  with nrun n have kt: "i + n \<le> length t" by auto
  from run_chars [OF nrun] have all: "\<forall>x \<in> set (take n (drop i t)). x = CHR ''#''" .
  have tk: "take n (drop i t) = replicate n (CHR ''#'')"
    using all kt by (intro replicate_eqI) auto
  have sub: "substring t i k = replicate n (CHR ''#'')"
    using kt n tk by (simp add: substring_def min_def max_def)
  have "k + length (takeWhile isWhiteSpace (drop k t)) \<le> max k (length t)"
    by (rule run_length)
  with j2 kt n have "j \<le> length t" by auto
  with n c sub tk j1 show ?thesis by (intro exI [of _ n]) auto
qed

lemma scan_heading:
  assumes "scan headingRegex t i = Some m"
  shows "i \<le> rm_index m" and "rm_index m < rm_end m" and "rm_end m \<le> length t"
    and "\<exists>n. 1 \<le> n \<and> n \<le> 6 \<and> rm_groups m 1 = Some (replicate n (CHR ''#''))"
proof -
  from scan_ends [OF assms] have i: "i \<le> rm_index m"
    and e: "(rm_end m, rm_groups m) \<in> set (ends headingRegex t (rm_index m) Map.empty)"
    by auto
  from heading_ends [OF e] obtain n where
    n: "1 \<le> n" "n \<le> 6" "rm_groups m = [1 \<mapsto> replicate n (CHR ''#'')]"
       "rm_index m + n < rm_end m" "rm_end m \<le> length t"
    by auto
  show "i \<le> rm_index m" by (rule i)
  show "rm_index m < rm_end m" using n by simp
  show "rm_end m \<le> length t" using n by simp
  show "\<exists>n. 1 \<le> n \<and> n \<le> 6 \<and> rm_groups m 1 = Some (replicate n (CHR ''#''))"
    using n by (intro exI [of _ n]) simp
qed

text \<open>The loop of \<open>findNextHeadingBoundary\<close>, with \<open>headingRegex.lastIndex = lastIndex\<close>;
  group 1 takes part in every match of the pattern.\<close>

function headingLoop :: "string \<Rightarrow> nat \<Rightarrow> nat \<Rightarrow> nat" where
  "headingLoop text lastIndex maxLevel =
     (case scan headingRegex text lastIndex of
        None \<Rightarrow> length text
      | Some m \<Rightarrow>
          if length (interp (rm_groups m 1)) \<le> maxLevel then rm_index m
          else headingLoop text (rm_end m) maxLevel)"
  by pat_completeness auto
termination
proof (relation "measure (\<lambda>(t, lastIndex, maxLevel). Suc (length t) - lastIndex)", goal_cases)
  case 1
  show ?case by simp
next
  case (2 t lastIndex maxLevel m)
  then show ?case using scan_heading(1-3) [of t lastIndex m] by auto
qed

declare headingLoop.simps [simp del]

definition findNextHeadingBoundary :: "string \<Rightarrow> nat \<Rightarrow> nat \<Rightarrow> nat" where
  "findNextHeadingBoundary text startPos maxLevel = headingLoop text startPos maxLevel"

text \<open>The constants of the loop body of \<open>updateReadme\<close>, for one match.\<close>

definition baseHeadingLevel :: "rmatch \<Rightarrow> nat" where
  \<comment> \<open>\<open>precedingHeadingLevel?.length || 2\<close>\<close>
  "baseHeadingLevel m =
     (case rm_groups m 2 of None \<Rightarrow> 2 | Some h \<Rightarrow> if length h = 0 then 2 else length h)"

definition contentStart :: "rmatch \<Rightarrow> nat" where
  "contentStart m = rm_index m + length (rm_full m)"

definition contentEnd :: "string \<Rightarrow> rmatch \<Rightarrow> nat" where
  "contentEnd readme m = findNextHeadingBoundary readme (contentStart m) (baseHeadingLevel m)"

definition headingPrefix :: "rmatch \<Rightarrow> string" where
  "headingPrefix m = repeat ''#'' (baseHeadingLevel m + 1)"

definition replacement :: "rmatch \<Rightarrow> string \<Rightarrow> string" where
  "replacement m newContent =
     (if truthy (rm_groups m 2) then repeat ''#'' (length (interp (rm_groups m 2))) @ '' '' else [])
     @ interp (rm_groups m 3) @ ''\<newline>'' @ newContent"

fun spliceLoop ::
  "env \<Rightarrow> string option \<Rightarrow> string \<Rightarrow> rmatch list \<Rightarrow> string \<Rightarrow> string list
     \<Rightarrow> (error + string) \<times> string list" where
  \<comment> \<open>\<open>for (const match of matches)\<close>, with \<open>updatedReadme\<close> and the lines logged so far\<close>
  "spliceLoop e repoUrl readme [] updatedReadme out = (Inr updatedReadme, out)"
| "spliceLoop e repoUrl readme (m # matches) updatedReadme out =
     (let sourceFile = interp (rm_groups m 4);
          out' = out @ [''Generating docs for '' @ sourceFile @ '' with heading level ''
                        @ numberToString (baseHeadingLevel m + 1) @ ''...'']
      in case generateMarkdownDoc e sourceFile (headingPrefix m) repoUrl of
           Inl err \<Rightarrow> (Inl err, out')
         | Inr newContent \<Rightarrow>
             spliceLoop e repoUrl readme matches
               (substring updatedReadme 0 (rm_index m) @ replacement m newContent
                @ substringFrom updatedReadme (contentEnd readme m))
               out')"

record world =
  files :: "string \<rightharpoonup> string"     \<comment> \<open>the content of each file on disk\<close>
  stdout :: "string list"
  stderr :: "string list"

datatype outcome =
    Finished            \<comment> \<open>the function returned\<close>
  | Exited nat          \<comment> \<open>\<open>process.exit(n)\<close>\<close>
  | Uncaught error      \<comment> \<open>an exception left the function\<close>

definition updateReadme ::
  "env \<Rightarrow> string \<Rightarrow> string \<Rightarrow> string option \<Rightarrow> world \<Rightarrow> outcome \<times> world" where
  "updateReadme e readmePath searchPhrase repoUrl w =
     (case files w readmePath of
        None \<Rightarrow> (Uncaught (ReadFailed readmePath), w)
      | Some readme \<Rightarrow>
          (let matches = rev (matchAll (markerRegex searchPhrase) readme) in
           if length matches = 0 then
             (Exited 1,
              w\<lparr>stderr := stderr w @ [''Could not find any '' @ [CHR 0x22] @ searchPhrase
                                       @ [CHR 0x22] @ '' markers in '' @ readmePath]\<rparr>)
           else
             (case spliceLoop e repoUrl readme matches readme [] of
                (Inl err, out) \<Rightarrow> (Uncaught err, w\<lparr>stdout := stdout w @ out\<rparr>)
              | (Inr updatedReadme, out) \<Rightarrow>
                  (Finished,
                   w\<lparr>files := (files w)(readmePath \<mapsto> updatedReadme),
                     stdout := stdout w @ out
                       @ [''Updated documentation for '' @ numberToString (length matches)
                          @ '' file(s) in '' @ readmePath]\<rparr>))))"

section \<open>Example inputs\<close>

text \<open>
  The declaration of \<^verbatim>\<open>/** ... */ export const x = ...;\<close>: its parent is the declaration
  list, which carries the \<open>const\<close> flag, and its grandparent the statement, which carries
  the documentation comment.
\<close>

definition constStatement :: "jsDoc list \<Rightarrow> ancestor list" where
  "constStatement docs =
     [\<lparr>a_kind = VariableDeclarationList, a_flags = NodeFlags_Const, a_jsDoc = [],
       a_declarationList = None\<rparr>,
      \<lparr>a_kind = VariableStatement, a_flags = 0, a_jsDoc = docs,
       a_declarationList = Some NodeFlags_Const\<rparr>]"

definition variableNode :: "nat \<Rightarrow> nat \<Rightarrow> jsDoc list \<Rightarrow> declarationNode" where
  "variableNode n line docs =
     \<lparr>d_id = n, d_kind = VariableDeclaration, d_flags = 0, d_pos = Some 0, d_line = line,
      d_modifiers = None, d_jsDoc = [], d_ancestors = constStatement docs,
      d_initializer = None, d_typeParameters = None, d_parameters = None, d_members = None,
      d_type = None\<rparr>"

definition symbolOf :: "declarationNode \<Rightarrow> symbol" where
  "symbolOf d = \<lparr>s_valueDeclaration = Some d, s_declarations = [d], s_flags = 0\<rparr>"

definition checkerOf :: "(nat \<Rightarrow> string) \<Rightarrow> checker" where
  \<comment> \<open>a checker that knows the type of every node and resolves no symbol\<close>
  "checkerOf types =
     \<lparr>getAliasedSymbol = (\<lambda>s. Threw),
      getSymbolAtLocation = (\<lambda>n. Returned None),
      typeToString = (\<lambda>s n. Returned (types n))\<rparr>"

definition summary :: "string \<Rightarrow> jsDoc" where
  "summary words = \<lparr>comment = Some words, tags = None\<rparr>"

text \<open>\<^verbatim>\<open>test/trivial.ts\<close>: \<^verbatim>\<open>/** <words> */ export const answer = 42;\<close> on its second line.\<close>

definition answer :: "jsDoc list \<Rightarrow> declarationNode" where
  "answer docs = variableNode 1 1 docs"

definition trivialFile :: "string \<Rightarrow> sourceFile" where
  "trivialFile words =
     \<lparr>fileName = ''/repo/test/trivial.ts'',
      exports = Some [(''answer'', symbolOf (answer [summary words]))]\<rparr>"

definition disk :: "string \<Rightarrow> world" where
  \<comment> \<open>a disk that holds \<^verbatim>\<open>README.md\<close> only\<close>
  "disk readme = \<lparr>files = [''README.md'' \<mapsto> readme], stdout = [], stderr = []\<rparr>"

text \<open>
  A class with a constructor documented by \<open>@param\<close>, a member hidden by its underscore,
  a static method and an instance property:
  \<^verbatim>\<open>
  export class Box {
      /** @param size The size */
      constructor(size: number) {}
      _secret: number;
      /** Make a box */
      static create(): Box {}
      /** The size */
      size: number;
  }\<close>
\<close>

definition boxMembers :: "member list" where
  "boxMembers =
     [\<lparr>m_id = 11, m_kind = Constructor, m_name = None, m_modifiers = None,
       m_jsDoc = [\<lparr>comment = None,
                   tags = Some [\<lparr>tagName = Some ''param'', tag_escapedText = Some ''size'',
                                 tag_getText = Some ''size'', tag_comment = Some ''The size''\<rparr>]\<rparr>],
       m_pos = Some 20, m_line = 2,
       m_parameters = [\<lparr>p_name = ''size'', p_type = Some ''number'', p_questionToken = False,
                        p_initializer = False\<rparr>]\<rparr>,
      \<lparr>m_id = 12, m_kind = PropertyDeclaration,
       m_name = Some \<lparr>nn_id = 112, nn_getText = ''_secret''\<rparr>, m_modifiers = None,
       m_jsDoc = [], m_pos = Some 60, m_line = 3, m_parameters = []\<rparr>,
      \<lparr>m_id = 13, m_kind = MethodDeclaration,
       m_name = Some \<lparr>nn_id = 113, nn_getText = ''create''\<rparr>,
       m_modifiers = Some [StaticKeyword],
       m_jsDoc = [summary ''Make a box''], m_pos = Some 80, m_line = 5, m_parameters = []\<rparr>,
      \<lparr>m_id = 14, m_kind = PropertyDeclaration,
       m_name = Some \<lparr>nn_id = 114, nn_getText = ''size''\<rparr>, m_modifiers = None,
       m_jsDoc = [summary ''The size''], m_pos = Some 120, m_line = 7, m_parameters = []\<rparr>]"

definition boxClass :: declarationNode where
  "boxClass =
     \<lparr>d_id = 10, d_kind = ClassDeclaration, d_flags = 0, d_pos = Some 0, d_line = 0,
      d_modifiers = Some [ExportKeyword], d_jsDoc = [], d_ancestors = [],
      d_initializer = None, d_typeParameters = None, d_parameters = None,
      d_members = Some boxMembers, d_type = None\<rparr>"

definition boxChecker :: checker where
  "boxChecker =
     \<lparr>getAliasedSymbol = (\<lambda>s. Threw),
      getSymbolAtLocation = (\<lambda>n. Returned (Some (symbolOf boxClass))),
      typeToString = (\<lambda>s n. Returned (if n = 13 then ''() => Box''
                                       else if n = 10 then ''typeof Box'' else ''number''))\<rparr>"

definition boxFile :: sourceFile where
  "boxFile = \<lparr>fileName = ''/repo/src/box.ts'', exports = Some [(''Box'', symbolOf boxClass)]\<rparr>"

definition exampleEnv :: "string \<Rightarrow> string attempt \<Rightarrow> env" where
  \<comment> \<open>a repository with the source files \<^verbatim>\<open>test/trivial.ts\<close> and \<^verbatim>\<open>src/box.ts\<close>; \<open>words\<close>
      is the comment in the first, \<open>git\<close> is what the lookup command does\<close>
  "exampleEnv words git =
     \<lparr>createProgram = (\<lambda>filePath.
        if filePath = ''test/trivial.ts''
        then \<lparr>getTypeChecker = checkerOf (\<lambda>n. ''42''),
              findSourceFile = Some (trivialFile words)\<rparr>
        else if filePath = ''src/box.ts''
        then \<lparr>getTypeChecker = boxChecker, findSourceFile = Some boxFile\<rparr>
        else \<lparr>getTypeChecker = checkerOf (\<lambda>n. ''any''), findSourceFile = None\<rparr>),
      gitLsFiles = (\<lambda>filePath. git)\<rparr>"



text \<open>
  An exported variable initialised with a type assertion,
  \<^verbatim>\<open>/** <docs> */ export const Alias = Box as typeof Box;\<close>, a class \<open>Box\<close> that carries a
  comment of its own, and a checker that resolves the operand of the assertion to it.
\<close>

definition boxAlias :: "jsDoc list \<Rightarrow> declarationNode" where
  "boxAlias docs =
     (variableNode 3 12 docs)
       \<lparr>d_initializer := Some \<lparr>i_kind = AsExpression, i_expression = Some 30\<rparr>\<rparr>"



definition aliasBody :: string where
  "aliasBody =
     ''**Constructor Parameters:**\<newline>\<newline>- `size`: The size\<newline>\<newline>''
     @ ''#### Alias.create'' @ middot @ ''static method\<newline>\<newline>Make a box\<newline>\<newline>''
     @ ''**Signature:** `() => Box`\<newline>\<newline>**Parameters:**\<newline>\<newline>\<newline>''
     @ ''#### alias.size'' @ middot @ ''property\<newline>\<newline>The size\<newline>\<newline>''
     @ ''**Type:** `number`\<newline>\<newline>''"

definition aliasFragment :: "string \<Rightarrow> string" where
  "aliasFragment paragraph = ''### Alias'' @ middot @ ''class\<newline>\<newline>'' @ paragraph @ aliasBody"


text \<open>What the renderer makes of the two source files, and documents with markers.\<close>

definition answerFragment :: "string \<Rightarrow> string" where
  "answerFragment words =
     ''### answer'' @ middot @ ''constant\<newline>\<newline>'' @ words
     @ ''\<newline>\<newline>**Value:** `42`\<newline>\<newline>''"

definition boxFragment :: "nat \<Rightarrow> string" where
  \<comment> \<open>the documentation of \<^verbatim>\<open>src/box.ts\<close> under a heading prefix of \<open>n\<close> hashes\<close>
  "boxFragment n =
     replicate n (CHR ''#'') @ '' Box'' @ middot @ ''class\<newline>\<newline>''
     @ ''**Constructor Parameters:**\<newline>\<newline>- `size`: The size\<newline>\<newline>''
     @ replicate n (CHR ''#'') @ ''# Box.create'' @ middot
     @ ''static method\<newline>\<newline>Make a box\<newline>\<newline>''
     @ ''**Signature:** `() => Box`\<newline>\<newline>**Parameters:**\<newline>\<newline>\<newline>''
     @ replicate n (CHR ''#'') @ ''# box.size'' @ middot @ ''property\<newline>\<newline>The size\<newline>\<newline>''
     @ ''**Type:** `number`\<newline>\<newline>''"

definition nestedReadme :: string where
  "nestedReadme =
     ''## API\<newline>Docs for test/trivial.ts:\<newline>### Box\<newline>Docs for src/box.ts:\<newline>old box docs\<newline>''"



definition apiReadme :: string where
  "apiReadme = ''## API\<newline>Docs for src/box.ts:\<newline>''"

definition bareReadme :: string where
  "bareReadme = ''\<newline>Docs for src/box.ts:\<newline>''"


section \<open>Notions used in the statements\<close>

text \<open>The two halves of the marker pattern: the optional heading and the marker line.\<close>

definition headingPart :: regex where
  "headingPart = seq [LineStart, Grp 2 (Rep Greedy 1 (Some 6) (\<lambda>c. c = CHR ''#'')),
                      Rep Greedy 1 None isWhiteSpace]"

definition bodyPart :: "string \<Rightarrow> regex" where
  "bodyPart searchPhrase =
     seq [Rep Lazy 0 None (\<lambda>c. \<not> isLineTerminator c),
          Lit ''\<newline>'',
          Lit searchPhrase,
          Rep Greedy 0 None (\<lambda>c. c = CHR '' '' \<or> c = CHR 0x60),
          Grp 4 (Rep Greedy 1 None (\<lambda>c. \<not> (c = CHR 0x60 \<or> c = CHR '':'' \<or> c = CHR '' ''))),
          Rep Greedy 0 None (\<lambda>c. c = CHR 0x60 \<or> c = CHR '':'' \<or> c = CHR '' ''),
          Lit ''\<newline>'']"



text \<open>
  The summary paragraph of a fragment: the text of the comment found, followed by a blank
  line, or nothing when no comment was found or its text is empty.
\<close>

definition summaryParagraph :: "jsDoc option \<Rightarrow> string" where
  "summaryParagraph found =
     (case found of
        None \<Rightarrow> []
      | Some doc \<Rightarrow>
          (case comment doc of
             None \<Rightarrow> []
           | Some words \<Rightarrow> if words = [] then [] else words @ ''\<newline>\<newline>''))"


definition headingDepth :: "string \<Rightarrow> nat" where
  \<comment> \<open>the number of \<open>#\<close> that a line starts with\<close>
  "headingDepth line = length (takeWhile (\<lambda>c. c = CHR ''#'') line)"


section \<open>Properties of the marker matches\<close>

lemma markerRegex_parts:
  "markerRegex p = Seq (Opt (Grp 1 headingPart)) (Grp 3 (bodyPart p))"
  by (simp add: markerRegex_def headingPart_def bodyPart_def)

lemma headingPart_ends:
  assumes "(j, c) \<in> set (ends headingPart t i c0)"
  shows "\<exists>n. 1 \<le> n \<and> n \<le> 6 \<and> c = c0(2 \<mapsto> replicate n (CHR ''#''))
             \<and> take n (drop i t) = replicate n (CHR ''#'') \<and> i + n < j \<and> j \<le> length t"
proof -
  from assms obtain k where
    k1: "i + 1 \<le> k" and
    k2: "k \<le> i + length (takeWhile (\<lambda>c. c = CHR ''#'') (drop i t))" and k6: "k \<le> i + 6" and
    c: "c = c0(2 \<mapsto> substring t i k)" and
    j1: "k + 1 \<le> j" and j2: "j \<le> k + length (takeWhile isWhiteSpace (drop k t))"
    by (auto simp: headingPart_def in_ends)
  define n where "n = k - i"
  have n: "1 \<le> n" "n \<le> 6" "k = i + n" using k1 k6 by (auto simp: n_def)
  have nrun: "n \<le> length (takeWhile (\<lambda>c. c = CHR ''#'') (drop i t))" using k2 n by simp
  have "length (takeWhile (\<lambda>c. c = CHR ''#'') (drop i t)) \<le> length (drop i t)"
    by (rule length_takeWhile_le)
  with nrun n have kt: "i + n \<le> length t" by auto
  from run_chars [OF nrun] have all: "\<forall>x \<in> set (take n (drop i t)). x = CHR ''#''" .
  have tk: "take n (drop i t) = replicate n (CHR ''#'')"
    using all kt by (intro replicate_eqI) auto
  have sub: "substring t i k = replicate n (CHR ''#'')"
    using kt n tk by (simp add: substring_def min_def max_def)
  have "k + length (takeWhile isWhiteSpace (drop k t)) \<le> max k (length t)"
    by (rule run_length)
  with j2 kt n have "j \<le> length t" by auto
  with n c sub tk j1 show ?thesis by (intro exI [of _ n]) auto
qed

lemma bodyPart_ends:
  assumes "(j, c) \<in> set (ends (bodyPart p) t k c1)"
  shows "k + length p + 2 < j \<and> j \<le> length t \<and> (\<exists>a b. c = c1(4 \<mapsto> substring t a b))"
proof -
  from assms obtain a0 a b b' where
    "k \<le> a0" and nl1: "startsWith (drop a0 t) ''\<newline>''" and
    ph: "startsWith (drop (a0 + 1) t) p" and
    "a0 + 1 + length p \<le> a" and "a + 1 \<le> b" and "b \<le> b'" and
    nl2: "startsWith (drop b' t) ''\<newline>''" and j: "j = b' + 1" and
    c: "c = c1(4 \<mapsto> substring t a b)"
    unfolding bodyPart_def seq.simps in_ends by (elim exE conjE) simp
  from nl2 have "b' + 1 \<le> length t" by (auto simp: startsWith_iff)
  with \<open>k \<le> a0\<close> \<open>a0 + 1 + length p \<le> a\<close> \<open>a + 1 \<le> b\<close> \<open>b \<le> b'\<close> j c show ?thesis by auto
qed

lemma substring_take_drop: "i \<le> j \<Longrightarrow> j \<le> length t \<Longrightarrow> substring t i j = take (j - i) (drop i t)"
  by (simp add: substring_def min_def max_def)

lemma substring_split:
  assumes "i \<le> k" "k \<le> j" "j \<le> length t"
  shows "substring t i j = substring t i k @ substring t k j"
proof -
  have "j - i = (k - i) + (j - k)" using assms by simp
  then have "take (j - i) (drop i t) = take (k - i) (drop i t) @ take (j - k) (drop (k - i) (drop i t))"
    by (simp only: take_add)
  then show ?thesis using assms by (simp add: substring_take_drop)
qed

lemma length_substring: "i \<le> j \<Longrightarrow> j \<le> length t \<Longrightarrow> length (substring t i j) = j - i"
  by (simp add: substring_take_drop)

lemma marker_ends:
  assumes "(j, c) \<in> set (ends (markerRegex p) t i Map.empty)"
  shows "i < j \<and> j \<le> length t \<and>
     (\<exists>g3 g4. c 3 = Some g3 \<and> c 4 = Some g4 \<and>
        ((c 1 = None \<and> c 2 = None \<and> substring t i j = g3) \<or>
         (\<exists>n w. 1 \<le> n \<and> n \<le> 6 \<and> w \<noteq> [] \<and> c 2 = Some (replicate n (CHR ''#''))
                \<and> c 1 = Some (replicate n (CHR ''#'') @ w)
                \<and> substring t i j = replicate n (CHR ''#'') @ w @ g3)))"
proof -
  from assms obtain k c1 c3 where
    opt: "(\<exists>c0. (k, c0) \<in> set (ends headingPart t i Map.empty) \<and> c1 = c0(1 \<mapsto> substring t i k))
          \<or> (k = i \<and> c1 = Map.empty)" and
    body: "(j, c3) \<in> set (ends (bodyPart p) t k c1)" and
    c: "c = c3(3 \<mapsto> substring t k j)"
    unfolding markerRegex_parts in_ends by blast
  from bodyPart_ends [OF body] obtain a b where
    kj: "k < j" and jt: "j \<le> length t" and c3: "c3 = c1(4 \<mapsto> substring t a b)"
    by auto
  from opt show ?thesis
  proof
    assume "k = i \<and> c1 = Map.empty"
    with kj jt c c3 show ?thesis by simp
  next
    assume "\<exists>c0. (k, c0) \<in> set (ends headingPart t i Map.empty) \<and> c1 = c0(1 \<mapsto> substring t i k)"
    then obtain c0 where h: "(k, c0) \<in> set (ends headingPart t i Map.empty)"
      and c1: "c1 = c0(1 \<mapsto> substring t i k)" by blast
    from headingPart_ends [OF h] obtain n where
      n: "1 \<le> n" "n \<le> 6" "c0 = [2 \<mapsto> replicate n (CHR ''#'')]"
         "take n (drop i t) = replicate n (CHR ''#'')" "i + n < k" "k \<le> length t"
      by auto
    define w where "w = substring t (i + n) k"
    have wlen: "length w = k - (i + n)" unfolding w_def using n by (simp add: length_substring)
    then have w: "w \<noteq> []" using n by auto
    have "substring t i (i + n) = replicate n (CHR ''#'')"
      using n by (simp add: substring_take_drop)
    then have g1: "substring t i k = replicate n (CHR ''#'') @ w"
      unfolding w_def using n substring_split [of i "i + n" k t] by simp
    have full: "substring t i j = substring t i k @ substring t k j"
      using n kj jt by (intro substring_split) auto
    have c1v: "c 1 = Some (replicate n (CHR ''#'') @ w)" using c c3 c1 g1 by simp
    have c2v: "c 2 = Some (replicate n (CHR ''#''))" using c c3 c1 n by simp
    have c3v: "c 3 = Some (substring t k j)" using c by simp
    have c4v: "c 4 = Some (substring t a b)" using c c3 by simp
    have "i < j" using n kj by simp
    with jt c1v c2v c3v c4v full g1 n w show ?thesis by auto
  qed
qed

section \<open>Classification and kind-specific bodies\<close>

lemma isConst_variableNode: "isConst (variableNode n line docs)"
  by (simp add: isConst_def variableNode_def constStatement_def NodeFlags_Const_def)

text \<open>
  C6. The classification of a variable declaration looks at the call shape before it looks
  at const-ness: a binding whose rendered type contains \<open>=>\<close> or starts with \<open>(\<close> is a
  \<open>function\<close>, const or not; a const binding whose rendered type (a non-empty string, as
  every rendered type is) is neither callable nor a \<open>typeof\<close> type is a \<open>constant\<close>, and its
  body is the single value line showing that type.
\<close>

theorem call_shape_before_constness:
  assumes "d_kind d = VariableDeclaration"
  shows "(includes_str ts ''=>'' \<or> startsWith ts ''(''
            \<longrightarrow> getTypeLabel d (Some ts) = ''function'')
    \<and> (isConst d \<and> ts \<noteq> [] \<and> \<not> includes_str ts ''=>'' \<and> \<not> startsWith ts ''(''
          \<and> \<not> startsWith ts ''typeof ''
        \<longrightarrow> getTypeLabel d (Some ts) = ''constant''
            \<and> generateTypeSpecificDoc e d (Some ts) chk prefix name sf repoUrl doc
                = Inr (''**Value:** `'' @ ts @ ''`\<newline>\<newline>''))"
proof -
  have nonempty: "includes_str ts ''=>'' \<or> startsWith ts ''('' \<Longrightarrow> ts \<noteq> []"
    by (cases ts) auto
  show ?thesis
    using assms nonempty
    by (auto simp: getTypeLabel_def generateTypeSpecificDoc_def truthy_def interp_def Let_def)
qed

theorem call_shape_before_constness_witness:
  "d_kind (answer [summary ''The universe and everything...'']) = VariableDeclaration
   \<and> isConst (answer [summary ''The universe and everything...''])
   \<and> getTypeLabel (answer [summary ''The universe and everything...''])
        (Some ''(x: T) => U'') = ''function''
   \<and> getTypeLabel (answer [summary ''The universe and everything...''])
        (Some ''42'') = ''constant''
   \<and> generateTypeSpecificDoc (exampleEnv ''The universe and everything...'' Threw)
        (answer [summary ''The universe and everything...'']) (Some ''42'')
        (checkerOf (\<lambda>n. ''42'')) ''###'' ''answer''
        (trivialFile ''The universe and everything...'') None
        (Some (summary ''The universe and everything...''))
       = Inr ''**Value:** `42`\<newline>\<newline>''"
proof -
  let ?d = "answer [summary ''The universe and everything...'']"
  have k: "d_kind ?d = VariableDeclaration" by (simp add: answer_def variableNode_def)
  have c: "isConst ?d" by (simp add: answer_def isConst_variableNode)
  show ?thesis
    using call_shape_before_constness [OF k, of "''(x: T) => U''"]
      call_shape_before_constness [OF k, of "''42''"
        "exampleEnv ''The universe and everything...'' Threw" "checkerOf (\<lambda>n. ''42'')" "''###''"
        "''answer''" "trivialFile ''The universe and everything...''" None
        "Some (summary ''The universe and everything...'')"]
      c k
    by simp
qed

lemma summaryParagraph_code:
  "(if truthy (Option.bind found comment) then interp (Option.bind found comment) @ ''\<newline>\<newline>''
    else []) = summaryParagraph found"
  by (cases found) (auto simp: summaryParagraph_def truthy_def interp_def split: option.splits)

text \<open>
  C10, as stated, fails in two ways. A type that starts with \<open>typeof\<close> and also contains an
  arrow, such as the type of \<^verbatim>\<open>Object.assign(Box, { make: () => new Box() })\<close>, is taken by
  the callable check, which comes first: the label is \<open>function\<close> and the body is a signature
  block. And for the exported variable \<^verbatim>\<open>export const Alias = Box as typeof Box\<close> the
  declaration is replaced by the one of the asserted operand, the class \<open>Box\<close>; the type
  string is \<open>typeof Box\<close> and the body is the whole class documentation, with the
  constructor parameters and a sub-fragment for every member.
\<close>

theorem typeof_with_arrow_counterexample:
  "startsWith ''typeof Box & { make: () => Box; }'' ''typeof ''
   \<and> getTypeLabel (variableNode 2 9 []) (Some ''typeof Box & { make: () => Box; }'') = ''function''
   \<and> generateTypeSpecificDoc (exampleEnv [] Threw) (variableNode 2 9 [])
        (Some ''typeof Box & { make: () => Box; }'') (checkerOf (\<lambda>n. ''42'')) ''###'' ''Boxes''
        (trivialFile []) None None
       = Inr ''**Signature:** `typeof Box & { make: () => Box; }`\<newline>\<newline>''
   \<and> d_kind (boxAlias []) = VariableDeclaration
   \<and> resolveSymbol (symbolOf (boxAlias [])) boxChecker
       = (Some boxClass, symbolOf boxClass, Some (boxAlias []))
   \<and> getTypeInfo (symbolOf boxClass) boxClass boxChecker = Some ''typeof Box''
   \<and> generateSymbolDoc (exampleEnv [] Threw) ''Alias'' (symbolOf (boxAlias [])) boxChecker
        ''###'' boxFile None
       = Inr (aliasFragment [])"
proof -
  have a: "startsWith ''typeof Box & { make: () => Box; }'' ''typeof ''
   \<and> getTypeLabel (variableNode 2 9 []) (Some ''typeof Box & { make: () => Box; }'') = ''function''
   \<and> generateTypeSpecificDoc (exampleEnv [] Threw) (variableNode 2 9 [])
        (Some ''typeof Box & { make: () => Box; }'') (checkerOf (\<lambda>n. ''42'')) ''###'' ''Boxes''
        (trivialFile []) None None
       = Inr ''**Signature:** `typeof Box & { make: () => Box; }`\<newline>\<newline>''"
    by (simp add: getTypeLabel_def generateTypeSpecificDoc_def generateFunctionDoc_def
        generateJSDocTags_def first_def truthy_def interp_def variableNode_def Let_def)
  have b: "d_kind (boxAlias []) = VariableDeclaration"
    by (simp add: boxAlias_def variableNode_def)
  have c: "resolveSymbol (symbolOf (boxAlias [])) boxChecker
       = (Some boxClass, symbolOf boxClass, Some (boxAlias []))"
    by code_simp
  have d: "getTypeInfo (symbolOf boxClass) boxClass boxChecker = Some ''typeof Box''"
    by code_simp
  have e: "generateSymbolDoc (exampleEnv [] Threw) ''Alias'' (symbolOf (boxAlias [])) boxChecker
        ''###'' boxFile None
       = Inr (aliasFragment [])"
    by code_simp
  from a b c d e show ?thesis by blast
qed

text \<open>
  C10, amended. For every exported symbol whose declaration, after re-exports and type
  assertions have been resolved, is a variable declaration, and whose rendered type starts
  with \<open>typeof \<close> and contains no \<open>=>\<close>: the fragment is the heading with the kind label
  \<open>class\<close> (hyperlinked when a deep link exists), the summary paragraph of its comment if
  there is one, and a body of exactly the one line \<^verbatim>\<open>**Type:** `<type>`\<close>; no type
  parameters, no constructor parameters and no member sub-fragments are emitted.
\<close>

theorem typeof_variable_body:
  assumes r: "resolveSymbol s chk = (Some d, originalSymbol, exportDeclaration)"
    and k: "d_kind d = VariableDeclaration"
    and t: "getTypeInfo originalSymbol d chk = Some ts"
    and s: "startsWith ts ''typeof ''" and n: "\<not> includes_str ts ''=>''"
  shows "generateSymbolDoc e name s chk prefix sf repoUrl
           = (case linkLabel e repoUrl (d_pos d \<noteq> None) (fileName sf) (d_line d) ''class'' of
                Inl err \<Rightarrow> Inl err
              | Inr typeLabel \<Rightarrow>
                  Inr (prefix @ '' '' @ name @ middot @ typeLabel @ ''\<newline>\<newline>''
                       @ summaryParagraph (symbolJSDoc exportDeclaration (Some d))
                       @ ''**Type:** `'' @ ts @ ''`\<newline>\<newline>''))"
proof -
  from s have ne: "ts \<noteq> []" "\<not> startsWith ts ''(''" by (cases ts; auto)+
  from k s n ne have lab: "getTypeLabel d (Some ts) = ''class''"
    by (simp add: getTypeLabel_def truthy_def interp_def Let_def)
  from k s n ne have body: "generateTypeSpecificDoc e d (Some ts) chk prefix name sf repoUrl doc
           = Inr (''**Type:** `'' @ ts @ ''`\<newline>\<newline>'')" for doc
    by (simp add: generateTypeSpecificDoc_def generateClassDoc_def truthy_def interp_def Let_def)
  from r t show ?thesis
    by (simp add: generateSymbolDoc_def Let_def lab body summaryParagraph_code split: sum.splits)
qed

theorem typeof_variable_body_witness:
  "resolveSymbol (symbolOf (variableNode 2 9 [summary ''All boxes.'']))
       (checkerOf (\<lambda>n. ''typeof Box''))
     = (Some (variableNode 2 9 [summary ''All boxes.'']),
        symbolOf (variableNode 2 9 [summary ''All boxes.'']),
        Some (variableNode 2 9 [summary ''All boxes.'']))
   \<and> d_kind (variableNode 2 9 [summary ''All boxes.'']) = VariableDeclaration
   \<and> getTypeInfo (symbolOf (variableNode 2 9 [summary ''All boxes.'']))
         (variableNode 2 9 [summary ''All boxes.'']) (checkerOf (\<lambda>n. ''typeof Box''))
       = Some ''typeof Box''
   \<and> startsWith ''typeof Box'' ''typeof '' \<and> \<not> includes_str ''typeof Box'' ''=>''
   \<and> generateSymbolDoc (exampleEnv [] Threw) ''Boxes''
         (symbolOf (variableNode 2 9 [summary ''All boxes.''])) (checkerOf (\<lambda>n. ''typeof Box''))
         ''###'' (trivialFile []) None
       = Inr (''### Boxes'' @ middot @ ''class\<newline>\<newline>All boxes.\<newline>\<newline>**Type:** `typeof Box`\<newline>\<newline>'')"
proof -
  let ?d = "variableNode 2 9 [summary ''All boxes.'']"
  let ?chk = "checkerOf (\<lambda>n. ''typeof Box'')"
  have r: "resolveSymbol (symbolOf ?d) ?chk = (Some ?d, symbolOf ?d, Some ?d)" by code_simp
  have k: "d_kind ?d = VariableDeclaration" by (simp add: variableNode_def)
  have t: "getTypeInfo (symbolOf ?d) ?d ?chk = Some ''typeof Box''"
    by (simp add: getTypeInfo_def checkerOf_def)
  have s: "startsWith ''typeof Box'' ''typeof ''" by simp
  have n: "\<not> includes_str ''typeof Box'' ''=>''" by simp
  have p: "summaryParagraph (symbolJSDoc (Some ?d) (Some ?d)) = ''All boxes.\<newline>\<newline>''"
    by code_simp
  have "generateSymbolDoc (exampleEnv [] Threw) ''Boxes'' (symbolOf ?d) ?chk ''###''
          (trivialFile []) None
        = Inr (''### Boxes'' @ middot @ ''class\<newline>\<newline>All boxes.\<newline>\<newline>**Type:** `typeof Box`\<newline>\<newline>'')"
    using typeof_variable_body [OF r k t s n, of "exampleEnv [] Threw" "''Boxes''" "''###''"
        "trivialFile []" None]
    by (simp add: linkLabel_def truthy_def p)
  with r k t s n show ?thesis by blast
qed

section \<open>Rendering with and without deep links\<close>

lemma collect_cong:
  "(\<And>x. x \<in> set xs \<Longrightarrow> f x = g x) \<Longrightarrow> collect f xs doc = collect g xs doc"
  by (induction xs arbitrary: doc) (auto split: sum.splits)

lemma collect_total:
  "(\<And>x. x \<in> set xs \<Longrightarrow> \<exists>piece. f x = Inr piece) \<Longrightarrow> \<exists>r. collect f xs doc = Inr r"
proof (induction xs arbitrary: doc)
  case Nil
  show ?case by simp
next
  case (Cons x xs)
  from Cons.prems [of x] obtain piece where "f x = Inr piece" by auto
  moreover from Cons.IH [of "doc @ piece"] Cons.prems
  have "\<exists>r. collect f xs (doc @ piece) = Inr r" by simp
  ultimately show ?case by simp
qed

lemma collect_pieces:
  "collect f xs doc = Inr r \<Longrightarrow>
     \<exists>pieces. r = doc @ concat pieces \<and> list_all2 (\<lambda>x piece. f x = Inr piece) xs pieces"
proof (induction xs arbitrary: doc)
  case Nil
  then show ?case by simp
next
  case (Cons x xs)
  from Cons.prems obtain piece where p: "f x = Inr piece" and r: "collect f xs (doc @ piece) = Inr r"
    by (auto split: sum.splits)
  from Cons.IH [OF r] obtain pieces where
    "r = (doc @ piece) @ concat pieces" "list_all2 (\<lambda>x piece. f x = Inr piece) xs pieces"
    by blast
  with p show ?case by (intro exI [of _ "piece # pieces"]) simp
qed

lemma linkLabel_no_url: "linkLabel e None located file line label = Inr label"
  by (simp add: linkLabel_def truthy_def)

lemma linkLabel_untracked:
  "gitLsFiles e file = Returned out \<Longrightarrow> trim out = [] \<Longrightarrow>
     linkLabel e repoUrl located file line label = Inr label"
  by (simp add: linkLabel_def generateDeepLink_def)

lemma linkLabel_failed:
  "gitLsFiles e file = Threw \<Longrightarrow> truthy repoUrl \<Longrightarrow>
     linkLabel e repoUrl True file line label = Inl (ExecFailed file)"
  by (simp add: linkLabel_def generateDeepLink_def)

lemma member_untracked:
  assumes "gitLsFiles e (fileName sf) = Returned out" and "trim out = []"
  shows "generateClassMemberDoc e m chk isStatic prefix className sf repoUrl
       = generateClassMemberDoc e m chk isStatic prefix className sf None"
  by (simp add: generateClassMemberDoc_def linkLabel_untracked [OF assms] linkLabel_no_url)

lemma member_no_url:
  "\<exists>piece. generateClassMemberDoc e m chk isStatic prefix className sf None = Inr piece"
  by (simp add: generateClassMemberDoc_def linkLabel_no_url Let_def)

lemma class_untracked:
  assumes "gitLsFiles e (fileName sf) = Returned out" and "trim out = []"
  shows "generateClassDoc e d ts chk prefix className sf repoUrl
       = generateClassDoc e d ts chk prefix className sf None"
  by (simp add: generateClassDoc_def member_untracked [OF assms, where repoUrl = repoUrl])

lemma class_no_url: "\<exists>body. generateClassDoc e d ts chk prefix className sf None = Inr body"
proof (cases "d_kind d = VariableDeclaration")
  case True
  then show ?thesis by (simp add: generateClassDoc_def)
next
  case False
  then show ?thesis
    unfolding generateClassDoc_def Let_def
    by (simp only: if_False) (rule collect_total, rule member_no_url)
qed

lemma body_untracked:
  assumes "gitLsFiles e (fileName sf) = Returned out" and "trim out = []"
  shows "generateTypeSpecificDoc e d typeInfo chk prefix name sf repoUrl doc
       = generateTypeSpecificDoc e d typeInfo chk prefix name sf None doc"
  unfolding generateTypeSpecificDoc_def class_untracked [OF assms, where repoUrl = repoUrl]
  by (rule refl)

lemma body_no_url:
  "\<exists>body. generateTypeSpecificDoc e d typeInfo chk prefix name sf None doc = Inr body"
proof -
  obtain cb where "generateClassDoc e d (interp typeInfo) chk prefix name sf None = Inr cb"
    using class_no_url by blast
  then show ?thesis by (simp add: generateTypeSpecificDoc_def Let_def)
qed

lemma symbol_no_url: "\<exists>doc. generateSymbolDoc e name s chk prefix sf None = Inr doc"
proof -
  obtain d os ed where r: "resolveSymbol s chk = (d, os, ed)" by (cases "resolveSymbol s chk")
  show ?thesis
  proof (cases d)
    case None
    with r show ?thesis by (simp add: generateSymbolDoc_def)
  next
    case (Some decl)
    from body_no_url obtain body where
      "generateTypeSpecificDoc e decl (getTypeInfo os decl chk) chk prefix name sf None
         (symbolJSDoc ed (Some decl)) = Inr body" by blast
    with r Some show ?thesis
      by (simp add: generateSymbolDoc_def linkLabel_no_url Let_def)
  qed
qed

text \<open>
  C5, as stated, fails when the lookup command itself fails: \<open>execSync\<close> throws, neither
  \<open>generateDeepLink\<close> nor its two callers catch, and the exception leaves
  \<open>generateSymbolDoc\<close> and the whole pass.
\<close>

theorem failed_lookup_counterexample:
  "generateSymbolDoc (exampleEnv ''The universe and everything...'' Threw) ''answer''
     (symbolOf (answer [summary ''The universe and everything...''])) (checkerOf (\<lambda>n. ''42''))
     ''###'' (trivialFile ''The universe and everything...'')
     (Some ''https://github.com/me/example'')
   = Inl (ExecFailed ''/repo/test/trivial.ts'')
   \<and> fst (updateReadme (exampleEnv ''The universe and everything...'' Threw) ''README.md''
            ''Docs for'' (Some ''https://github.com/me/example'')
            (disk ''# Trivial\<newline>\<newline>Docs for test/trivial.ts:\<newline>''))
     = Uncaught (ExecFailed ''/repo/test/trivial.ts'')"
  by code_simp

text \<open>
  C5, amended. When the lookup command succeeds and prints nothing (the file is not
  tracked), every kind label is the plain one: the fragment is the one rendered without a
  repository URL, and rendering does not fail. When the lookup command fails, a repository
  URL is configured and the declaration has a position, the exception of the command is the
  result of rendering the fragment.
\<close>

theorem untracked_file_plain_label:
  "(gitLsFiles e (fileName sf) = Returned out \<and> trim out = []
      \<longrightarrow> generateSymbolDoc e name s chk prefix sf repoUrl
            = generateSymbolDoc e name s chk prefix sf None
          \<and> (\<exists>doc. generateSymbolDoc e name s chk prefix sf repoUrl = Inr doc)
          \<and> (\<forall>d originalSymbol exportDeclaration.
                resolveSymbol s chk = (Some d, originalSymbol, exportDeclaration)
                \<longrightarrow> (\<exists>rest. generateSymbolDoc e name s chk prefix sf repoUrl
                              = Inr (prefix @ '' '' @ name @ middot
                                     @ getTypeLabel d (getTypeInfo originalSymbol d chk)
                                     @ ''\<newline>\<newline>'' @ rest))))
   \<and> (gitLsFiles e (fileName sf) = Threw \<and> truthy repoUrl
        \<and> resolveSymbol s chk = (Some d, originalSymbol, exportDeclaration) \<and> d_pos d \<noteq> None
      \<longrightarrow> generateSymbolDoc e name s chk prefix sf repoUrl = Inl (ExecFailed (fileName sf)))"
proof (intro conjI impI)
  assume a: "gitLsFiles e (fileName sf) = Returned out \<and> trim out = []"
  then have g: "gitLsFiles e (fileName sf) = Returned out" and t: "trim out = []" by auto
  show same: "generateSymbolDoc e name s chk prefix sf repoUrl
        = generateSymbolDoc e name s chk prefix sf None"
    unfolding generateSymbolDoc_def linkLabel_untracked [OF g t] linkLabel_no_url
      body_untracked [OF g t, where repoUrl = repoUrl]
    by (rule refl)
  from symbol_no_url [of e name s chk prefix sf] same
  show "\<exists>doc. generateSymbolDoc e name s chk prefix sf repoUrl = Inr doc" by simp
  show "\<forall>d originalSymbol exportDeclaration.
          resolveSymbol s chk = (Some d, originalSymbol, exportDeclaration)
          \<longrightarrow> (\<exists>rest. generateSymbolDoc e name s chk prefix sf repoUrl
                        = Inr (prefix @ '' '' @ name @ middot
                               @ getTypeLabel d (getTypeInfo originalSymbol d chk)
                               @ ''\<newline>\<newline>'' @ rest))"
  proof (intro allI impI)
    fix d originalSymbol exportDeclaration
    assume r: "resolveSymbol s chk = (Some d, originalSymbol, exportDeclaration)"
    obtain body where "generateTypeSpecificDoc e d (getTypeInfo originalSymbol d chk) chk
        prefix name sf None (symbolJSDoc exportDeclaration (Some d)) = Inr body"
      using body_no_url by blast
    with r show "\<exists>rest. generateSymbolDoc e name s chk prefix sf repoUrl
                        = Inr (prefix @ '' '' @ name @ middot
                               @ getTypeLabel d (getTypeInfo originalSymbol d chk)
                               @ ''\<newline>\<newline>'' @ rest)"
      unfolding same by (simp add: generateSymbolDoc_def linkLabel_no_url Let_def)
  qed
next
  assume "gitLsFiles e (fileName sf) = Threw \<and> truthy repoUrl
        \<and> resolveSymbol s chk = (Some d, originalSymbol, exportDeclaration) \<and> d_pos d \<noteq> None"
  then show "generateSymbolDoc e name s chk prefix sf repoUrl = Inl (ExecFailed (fileName sf))"
    by (simp add: generateSymbolDoc_def linkLabel_failed Let_def)
qed

theorem untracked_file_plain_label_witness:
  "gitLsFiles (exampleEnv ''The universe and everything...'' (Returned []))
     (fileName (trivialFile ''The universe and everything...'')) = Returned []
   \<and> trim [] = []
   \<and> generateSymbolDoc (exampleEnv ''The universe and everything...'' (Returned [])) ''answer''
        (symbolOf (answer [summary ''The universe and everything...''])) (checkerOf (\<lambda>n. ''42''))
        ''###'' (trivialFile ''The universe and everything...'')
        (Some ''https://github.com/me/example'')
       = Inr (''### answer'' @ middot
              @ ''constant\<newline>\<newline>The universe and everything...\<newline>\<newline>**Value:** `42`\<newline>\<newline>'')
   \<and> gitLsFiles (exampleEnv ''The universe and everything...'' Threw)
        (fileName (trivialFile ''The universe and everything...'')) = Threw
   \<and> truthy (Some ''https://github.com/me/example'')
   \<and> resolveSymbol (symbolOf (answer [summary ''The universe and everything...'']))
        (checkerOf (\<lambda>n. ''42''))
       = (Some (answer [summary ''The universe and everything...'']),
          symbolOf (answer [summary ''The universe and everything...'']),
          Some (answer [summary ''The universe and everything...'']))
   \<and> d_pos (answer [summary ''The universe and everything...'']) \<noteq> None
   \<and> generateSymbolDoc (exampleEnv ''The universe and everything...'' Threw) ''answer''
        (symbolOf (answer [summary ''The universe and everything...''])) (checkerOf (\<lambda>n. ''42''))
        ''###'' (trivialFile ''The universe and everything...'')
        (Some ''https://github.com/me/example'')
       = Inl (ExecFailed (fileName (trivialFile ''The universe and everything...'')))"
proof -
  let ?w = "''The universe and everything...''"
  let ?d = "answer [summary ?w]"
  let ?chk = "checkerOf (\<lambda>n. ''42'')"
  let ?url = "Some ''https://github.com/me/example''"
  have g1: "gitLsFiles (exampleEnv ?w (Returned [])) (fileName (trivialFile ?w)) = Returned []"
    by (simp add: exampleEnv_def)
  have t1: "trim [] = []" by (simp add: trim_def)
  have g2: "gitLsFiles (exampleEnv ?w Threw) (fileName (trivialFile ?w)) = Threw"
    by (simp add: exampleEnv_def)
  have u: "truthy ?url" by (simp add: truthy_def)
  have r: "resolveSymbol (symbolOf ?d) ?chk = (Some ?d, symbolOf ?d, Some ?d)"
    by (simp add: resolveSymbol_def declarationOf_def symbolOf_def answer_def variableNode_def
        Let_def)
  have p: "d_pos ?d \<noteq> None" by (simp add: answer_def variableNode_def)
  have plain: "generateSymbolDoc (exampleEnv ?w (Returned [])) ''answer'' (symbolOf ?d) ?chk
        ''###'' (trivialFile ?w) None
       = Inr (''### answer'' @ middot
              @ ''constant\<newline>\<newline>The universe and everything...\<newline>\<newline>**Value:** `42`\<newline>\<newline>'')"
    by code_simp
  from untracked_file_plain_label [of "exampleEnv ?w (Returned [])" "trivialFile ?w" "[]"
      "''answer''" "symbolOf ?d" ?chk "''###''" ?url] g1 t1
  have a: "generateSymbolDoc (exampleEnv ?w (Returned [])) ''answer'' (symbolOf ?d) ?chk
        ''###'' (trivialFile ?w) ?url
      = generateSymbolDoc (exampleEnv ?w (Returned [])) ''answer'' (symbolOf ?d) ?chk
        ''###'' (trivialFile ?w) None"
    by blast
  from untracked_file_plain_label [of "exampleEnv ?w Threw" "trivialFile ?w" _
      "''answer''" "symbolOf ?d" ?chk "''###''" ?url ?d "symbolOf ?d" "Some ?d"] g2 u r p
  have b: "generateSymbolDoc (exampleEnv ?w Threw) ''answer'' (symbolOf ?d) ?chk
        ''###'' (trivialFile ?w) ?url = Inl (ExecFailed (fileName (trivialFile ?w)))"
    by blast
  from g1 t1 g2 u r p a plain b show ?thesis by (simp only: simp_thms)
qed


section \<open>Documentation comments\<close>








section \<open>Members of a class\<close>

text \<open>
  C8. For a class or interface, the members rendered are never named with a leading
  underscore and never the constructor; the output is the class-level blocks followed by
  exactly one fragment for each of those members; the constructor shows only in the
  constructor-parameters block, which is made of the \<open>@param\<close> tags of the constructor's
  own comment and is empty when there is no constructor.
\<close>

theorem member_filtering:
  assumes "d_kind d \<noteq> VariableDeclaration"
  shows "(\<forall>m \<in> set (staticMembers d @ instanceMembers d).
            (\<forall>n. m_name m = Some n \<longrightarrow> \<not> startsWith (nn_getText n) ''_'')
            \<and> m_kind m \<noteq> Constructor)
    \<and> (generateClassDoc e d ts chk prefix className sf repoUrl = Inr doc
        \<longrightarrow> (\<exists>pieces.
               doc = (case d_typeParameters d of
                        Some (tp # tps) \<Rightarrow>
                          generateTypeParameters (tp # tps) (extractJSDoc (Some d))
                      | _ \<Rightarrow> [])
                     @ generateJSDocTags (extractJSDoc (Some d))
                     @ constructorParameters d
                     @ concat pieces
               \<and> list_all2 (\<lambda>m piece. generateClassMemberDoc e m chk (isStaticMember m) prefix
                                          className sf repoUrl = Inr piece)
                     (staticMembers d @ instanceMembers d) pieces))
    \<and> (find (\<lambda>m. m_kind m = Constructor) (case d_members d of None \<Rightarrow> [] | Some ms \<Rightarrow> ms) = None
        \<longrightarrow> constructorParameters d = [])
    \<and> (\<forall>c. find (\<lambda>m. m_kind m = Constructor) (case d_members d of None \<Rightarrow> [] | Some ms \<Rightarrow> ms)
               = Some c
          \<longrightarrow> constructorParameters d =
              (case Option.bind (first (m_jsDoc c)) tags of
                 None \<Rightarrow> []
               | Some ts \<Rightarrow>
                   if filter (hasTag ''param'') ts = [] then []
                   else ''**Constructor Parameters:**\<newline>\<newline>''
                        @ concat (map (\<lambda>tag. ''- `'' @ tagParamName tag @ ''`: ''
                                              @ interp (orElse (tag_comment tag) (Some []))
                                              @ ''\<newline>'')
                                      (filter (hasTag ''param'') ts))
                        @ ''\<newline>''))"
proof (intro conjI)
  show "\<forall>m \<in> set (staticMembers d @ instanceMembers d).
            (\<forall>n. m_name m = Some n \<longrightarrow> \<not> startsWith (nn_getText n) ''_'')
            \<and> m_kind m \<noteq> Constructor"
    by (auto simp: staticMembers_def instanceMembers_def publicMembers_def)
  have static: "m \<in> set (staticMembers d) \<longleftrightarrow> isStaticMember m"
    if "m \<in> set (staticMembers d @ instanceMembers d)" for m
    using that by (auto simp: staticMembers_def instanceMembers_def)
  have eq: "generateClassDoc e d ts chk prefix className sf repoUrl =
      collect (\<lambda>m. generateClassMemberDoc e m chk (isStaticMember m) prefix className sf repoUrl)
        (staticMembers d @ instanceMembers d)
        ((case d_typeParameters d of
            Some (tp # tps) \<Rightarrow> generateTypeParameters (tp # tps) (extractJSDoc (Some d))
          | _ \<Rightarrow> [])
         @ generateJSDocTags (extractJSDoc (Some d)) @ constructorParameters d)"
    using assms unfolding generateClassDoc_def Let_def
    by (simp only: if_False) (rule collect_cong, simp only: static)
  show "generateClassDoc e d ts chk prefix className sf repoUrl = Inr doc
        \<longrightarrow> (\<exists>pieces.
               doc = (case d_typeParameters d of
                        Some (tp # tps) \<Rightarrow>
                          generateTypeParameters (tp # tps) (extractJSDoc (Some d))
                      | _ \<Rightarrow> [])
                     @ generateJSDocTags (extractJSDoc (Some d))
                     @ constructorParameters d
                     @ concat pieces
               \<and> list_all2 (\<lambda>m piece. generateClassMemberDoc e m chk (isStaticMember m) prefix
                                          className sf repoUrl = Inr piece)
                     (staticMembers d @ instanceMembers d) pieces)"
  proof
    assume "generateClassDoc e d ts chk prefix className sf repoUrl = Inr doc"
    from collect_pieces [OF this [unfolded eq]] obtain pieces where
      "doc = ((case d_typeParameters d of
            Some (tp # tps) \<Rightarrow> generateTypeParameters (tp # tps) (extractJSDoc (Some d))
          | _ \<Rightarrow> [])
         @ generateJSDocTags (extractJSDoc (Some d)) @ constructorParameters d) @ concat pieces"
      "list_all2 (\<lambda>m piece. generateClassMemberDoc e m chk (isStaticMember m) prefix
                                          className sf repoUrl = Inr piece)
                     (staticMembers d @ instanceMembers d) pieces"
      by blast
    then show "\<exists>pieces.
               doc = (case d_typeParameters d of
                        Some (tp # tps) \<Rightarrow>
                          generateTypeParameters (tp # tps) (extractJSDoc (Some d))
                      | _ \<Rightarrow> [])
                     @ generateJSDocTags (extractJSDoc (Some d))
                     @ constructorParameters d
                     @ concat pieces
               \<and> list_all2 (\<lambda>m piece. generateClassMemberDoc e m chk (isStaticMember m) prefix
                                          className sf repoUrl = Inr piece)
                     (staticMembers d @ instanceMembers d) pieces"
      by (intro exI [of _ pieces]) simp
  qed
  show "find (\<lambda>m. m_kind m = Constructor) (case d_members d of None \<Rightarrow> [] | Some ms \<Rightarrow> ms) = None
        \<longrightarrow> constructorParameters d = []"
    by (simp add: constructorParameters_def)
  show "\<forall>c. find (\<lambda>m. m_kind m = Constructor) (case d_members d of None \<Rightarrow> [] | Some ms \<Rightarrow> ms)
               = Some c
          \<longrightarrow> constructorParameters d =
              (case Option.bind (first (m_jsDoc c)) tags of
                 None \<Rightarrow> []
               | Some ts \<Rightarrow>
                   if filter (hasTag ''param'') ts = [] then []
                   else ''**Constructor Parameters:**\<newline>\<newline>''
                        @ concat (map (\<lambda>tag. ''- `'' @ tagParamName tag @ ''`: ''
                                              @ interp (orElse (tag_comment tag) (Some []))
                                              @ ''\<newline>'')
                                      (filter (hasTag ''param'') ts))
                        @ ''\<newline>'')"
    by (auto simp: constructorParameters_def extractJSDocMember_def Let_def split: option.splits)
qed

theorem member_filtering_witness:
  "d_kind boxClass \<noteq> VariableDeclaration
   \<and> map (\<lambda>m. map_option nn_getText (m_name m)) (staticMembers boxClass @ instanceMembers boxClass)
       = [Some ''create'', Some ''size'']
   \<and> map m_kind (staticMembers boxClass @ instanceMembers boxClass)
       = [MethodDeclaration, PropertyDeclaration]
   \<and> generateClassDoc (exampleEnv [] Threw) boxClass ''typeof Box'' boxChecker ''###'' ''Box''
        boxFile None
       = Inr (''**Constructor Parameters:**\<newline>\<newline>- `size`: The size\<newline>\<newline>''
              @ ''#### Box.create'' @ middot @ ''static method\<newline>\<newline>Make a box\<newline>\<newline>''
              @ ''**Signature:** `() => Box`\<newline>\<newline>**Parameters:**\<newline>\<newline>\<newline>''
              @ ''#### box.size'' @ middot @ ''property\<newline>\<newline>The size\<newline>\<newline>''
              @ ''**Type:** `number`\<newline>\<newline>'')
   \<and> constructorParameters boxClass
       = ''**Constructor Parameters:**\<newline>\<newline>- `size`: The size\<newline>\<newline>''
   \<and> find (\<lambda>m. m_kind m = Constructor)
        (case d_members (boxClass\<lparr>d_members := None\<rparr>) of None \<Rightarrow> [] | Some ms \<Rightarrow> ms) = None
   \<and> constructorParameters (boxClass\<lparr>d_members := None\<rparr>) = []"
proof -
  have k: "d_kind boxClass \<noteq> VariableDeclaration" by (simp add: boxClass_def)
  have k': "d_kind (boxClass\<lparr>d_members := None\<rparr>) \<noteq> VariableDeclaration"
    by (simp add: boxClass_def)
  have names: "map (\<lambda>m. map_option nn_getText (m_name m))
      (staticMembers boxClass @ instanceMembers boxClass) = [Some ''create'', Some ''size'']"
    by code_simp
  have out: "generateClassDoc (exampleEnv [] Threw) boxClass ''typeof Box'' boxChecker ''###''
        ''Box'' boxFile None
       = Inr (''**Constructor Parameters:**\<newline>\<newline>- `size`: The size\<newline>\<newline>''
              @ ''#### Box.create'' @ middot @ ''static method\<newline>\<newline>Make a box\<newline>\<newline>''
              @ ''**Signature:** `() => Box`\<newline>\<newline>**Parameters:**\<newline>\<newline>\<newline>''
              @ ''#### box.size'' @ middot @ ''property\<newline>\<newline>The size\<newline>\<newline>''
              @ ''**Type:** `number`\<newline>\<newline>'')"
    by code_simp
  have ctor: "find (\<lambda>m. m_kind m = Constructor)
      (case d_members boxClass of None \<Rightarrow> [] | Some ms \<Rightarrow> ms) = Some (hd boxMembers)"
    by (simp add: boxClass_def boxMembers_def)
  have none: "find (\<lambda>m. m_kind m = Constructor)
        (case d_members (boxClass\<lparr>d_members := None\<rparr>) of None \<Rightarrow> [] | Some ms \<Rightarrow> ms) = None"
    by simp
  note inst = member_filtering [OF k, of "exampleEnv [] Threw" "''typeof Box''" boxChecker
      "''###''" "''Box''" boxFile None]
  have kinds: "map m_kind (staticMembers boxClass @ instanceMembers boxClass)
       = [MethodDeclaration, PropertyDeclaration]"
    by code_simp
  from inst ctor have "constructorParameters boxClass =
      (case Option.bind (first (m_jsDoc (hd boxMembers))) tags of
         None \<Rightarrow> []
       | Some ts \<Rightarrow>
           if filter (hasTag ''param'') ts = [] then []
           else ''**Constructor Parameters:**\<newline>\<newline>''
                @ concat (map (\<lambda>tag. ''- `'' @ tagParamName tag @ ''`: ''
                                      @ interp (orElse (tag_comment tag) (Some []))
                                      @ ''\<newline>'')
                              (filter (hasTag ''param'') ts))
                @ ''\<newline>'')" by blast
  then have cp: "constructorParameters boxClass
       = ''**Constructor Parameters:**\<newline>\<newline>- `size`: The size\<newline>\<newline>''"
    by (simp add: boxMembers_def first_def hasTag_def tagParamName_def orElse_def truthy_def
        interp_def)
  from member_filtering [OF k', of "exampleEnv [] Threw" "''typeof Box''" boxChecker
      "''###''" "''Box''" boxFile None] none
  have cp': "constructorParameters (boxClass\<lparr>d_members := None\<rparr>) = []" by blast
  from k names kinds out cp none cp' show ?thesis by (simp only: simp_thms)
qed

section \<open>Passes that write nothing\<close>

lemma spliceLoop_fails:
  "m \<in> set ms \<Longrightarrow>
   generateMarkdownDoc e (interp (rm_groups m 4)) (headingPrefix m) repoUrl = Inl err \<Longrightarrow>
   \<exists>err' out'. spliceLoop e repoUrl readme ms u out = (Inl err', out')"
proof (induction ms arbitrary: u out)
  case Nil
  then show ?case by simp
next
  case (Cons x xs)
  show ?case
  proof (cases "generateMarkdownDoc e (interp (rm_groups x 4)) (headingPrefix x) repoUrl")
    case (Inl a)
    then show ?thesis by (simp add: Let_def)
  next
    case (Inr newContent)
    with Cons.prems have "m \<in> set xs" by auto
    from Cons.IH [OF this Cons.prems(2)] Inr show ?thesis by (simp add: Let_def)
  qed
qed

lemma matchAllFrom_scan: "m \<in> set (matchAllFrom r t i) \<Longrightarrow> \<exists>k. scan r t k = Some m"
proof (induction r t i rule: matchAllFrom.induct)
  case (1 r t i)
  show ?case
  proof (cases "scan r t i")
    case None
    with 1(2) show ?thesis by (simp add: matchAllFrom.simps [of r t i])
  next
    case (Some x)
    with 1(2) have "m = x \<or> m \<in> set (matchAllFrom r t
        (if rm_end x = rm_index x then Suc (rm_end x) else rm_end x))"
      by (simp add: matchAllFrom.simps [of r t i])
    then show ?thesis
    proof
      assume "m = x"
      with Some show ?thesis by blast
    next
      assume "m \<in> set (matchAllFrom r t
        (if rm_end x = rm_index x then Suc (rm_end x) else rm_end x))"
      from 1(1) [OF Some this] show ?thesis .
    qed
  qed
qed

lemma includes_drop: "startsWith (drop k t) p \<Longrightarrow> includes_str t p"
proof (induction t arbitrary: k)
  case Nil
  then show ?case by (cases p) auto
next
  case (Cons c cs)
  show ?case
  proof (cases k)
    case 0
    with Cons.prems show ?thesis by simp
  next
    case (Suc k')
    with Cons.prems have "startsWith (drop k' cs) p" by simp
    from Cons.IH [OF this] show ?thesis by simp
  qed
qed

lemma bodyPart_phrase:
  assumes "(j, c) \<in> set (ends (bodyPart p) t k c1)"
  shows "includes_str t p"
proof -
  from assms obtain a0 where "startsWith (drop (a0 + 1) t) p"
    unfolding bodyPart_def seq.simps in_ends by (elim exE conjE) simp
  then show ?thesis by (rule includes_drop)
qed

lemma marker_phrase:
  assumes "(j, c) \<in> set (ends (markerRegex p) t i c0)"
  shows "includes_str t p"
proof -
  from assms obtain k c1 c3 where "(j, c3) \<in> set (ends (bodyPart p) t k c1)"
    unfolding markerRegex_parts in_ends by blast
  then show ?thesis by (rule bodyPart_phrase)
qed

lemma no_phrase_no_marker:
  assumes "\<not> includes_str readme searchPhrase"
  shows "matchAll (markerRegex searchPhrase) readme = []"
proof (cases "scan (markerRegex searchPhrase) readme 0")
  case None
  then show ?thesis by (simp add: matchAll_def matchAllFrom.simps [of _ _ 0])
next
  case (Some m)
  from scan_ends [OF Some] marker_phrase assms show ?thesis by blast
qed

text \<open>
  C2. If generating the documentation of any marker's source file fails, the pass ends with
  that exception and the files on disk are what they were; in particular generation fails
  when the compiler reports no source file or no export table for the path.
\<close>

theorem failed_generation_writes_nothing:
  assumes "files w readmePath = Some readme"
    and "m \<in> set (matchAll (markerRegex searchPhrase) readme)"
    and "generateMarkdownDoc e (interp (rm_groups m 4)) (headingPrefix m) repoUrl = Inl err"
  shows "(\<exists>err' w'. updateReadme e readmePath searchPhrase repoUrl w = (Uncaught err', w')
                   \<and> files w' = files w)
    \<and> (Option.bind (findSourceFile (createProgram e filePath)) exports = None
         \<longrightarrow> generateMarkdownDoc e filePath prefix repoUrl = Inl (NoExports filePath))"
proof
  let ?ms = "rev (matchAll (markerRegex searchPhrase) readme)"
  from assms(2) have in_rev: "m \<in> set ?ms" by simp
  then have ne: "length ?ms \<noteq> 0" by auto
  from spliceLoop_fails [OF in_rev assms(3)] obtain err' out' where
    "spliceLoop e repoUrl readme ?ms readme [] = (Inl err', out')" by blast
  with assms(1) ne show "\<exists>err' w'. updateReadme e readmePath searchPhrase repoUrl w
        = (Uncaught err', w') \<and> files w' = files w"
    by (simp add: updateReadme_def Let_def)
  show "Option.bind (findSourceFile (createProgram e filePath)) exports = None
         \<longrightarrow> generateMarkdownDoc e filePath prefix repoUrl = Inl (NoExports filePath)"
    by (auto simp: generateMarkdownDoc_def Let_def split: option.splits)
qed

theorem failed_generation_writes_nothing_witness:
  "files (disk ''# API\<newline>\<newline>Docs for missing.ts:\<newline>'') ''README.md''
     = Some ''# API\<newline>\<newline>Docs for missing.ts:\<newline>''
   \<and> hd (matchAll (markerRegex ''Docs for'') ''# API\<newline>\<newline>Docs for missing.ts:\<newline>'')
       \<in> set (matchAll (markerRegex ''Docs for'') ''# API\<newline>\<newline>Docs for missing.ts:\<newline>'')
   \<and> Option.bind (findSourceFile (createProgram (exampleEnv [] Threw) ''missing.ts'')) exports
       = None
   \<and> generateMarkdownDoc (exampleEnv [] Threw)
        (interp (rm_groups (hd (matchAll (markerRegex ''Docs for'')
                                  ''# API\<newline>\<newline>Docs for missing.ts:\<newline>'')) 4))
        (headingPrefix (hd (matchAll (markerRegex ''Docs for'')
                                  ''# API\<newline>\<newline>Docs for missing.ts:\<newline>'')))
        None = Inl (NoExports ''missing.ts'')
   \<and> (\<exists>err' w'. updateReadme (exampleEnv [] Threw) ''README.md'' ''Docs for'' None
                    (disk ''# API\<newline>\<newline>Docs for missing.ts:\<newline>'') = (Uncaught err', w')
                \<and> files w' = files (disk ''# API\<newline>\<newline>Docs for missing.ts:\<newline>''))"
proof -
  let ?readme = "''# API\<newline>\<newline>Docs for missing.ts:\<newline>''"
  let ?m = "hd (matchAll (markerRegex ''Docs for'') ?readme)"
  have f: "files (disk ?readme) ''README.md'' = Some ?readme" by (simp add: disk_def)
  have "length (matchAll (markerRegex ''Docs for'') ?readme) = 1" by code_simp
  then have "matchAll (markerRegex ''Docs for'') ?readme \<noteq> []" by auto
  then have m: "?m \<in> set (matchAll (markerRegex ''Docs for'') ?readme)" by (rule hd_in_set)
  have x: "Option.bind (findSourceFile (createProgram (exampleEnv [] Threw) ''missing.ts''))
             exports = None"
    by (simp add: exampleEnv_def)
  have g: "generateMarkdownDoc (exampleEnv [] Threw) (interp (rm_groups ?m 4)) (headingPrefix ?m)
             None = Inl (NoExports ''missing.ts'')"
    by code_simp
  from failed_generation_writes_nothing [OF f m g, where filePath = "''missing.ts''"
      and prefix = "''###''"]
    f m x g
  show ?thesis by blast
qed

text \<open>
  C4. For a document in which the marker pattern matches nowhere, the pass exits with
  status 1 after one line on standard error that names the phrase and the file, and the
  files on disk are unchanged. (By \<open>no_phrase_no_marker\<close> this is so whenever the phrase does
  not occur in the document.)
\<close>

theorem no_markers_exit:
  assumes "files w readmePath = Some readme"
    and "matchAll (markerRegex searchPhrase) readme = []"
  shows "updateReadme e readmePath searchPhrase repoUrl w
         = (Exited 1,
            w\<lparr>stderr := stderr w @ [''Could not find any '' @ [CHR 0x22] @ searchPhrase
                                     @ [CHR 0x22] @ '' markers in '' @ readmePath]\<rparr>)
       \<and> files (snd (updateReadme e readmePath searchPhrase repoUrl w)) = files w"
  using assms by (simp add: updateReadme_def)

theorem no_markers_exit_witness:
  "files (disk ''# Title\<newline>\<newline>Nothing to see.\<newline>'') ''README.md''
     = Some ''# Title\<newline>\<newline>Nothing to see.\<newline>''
   \<and> matchAll (markerRegex ''The following is auto-generated from'')
        ''# Title\<newline>\<newline>Nothing to see.\<newline>'' = []
   \<and> fst (updateReadme (exampleEnv [] Threw) ''README.md''
            ''The following is auto-generated from'' None
            (disk ''# Title\<newline>\<newline>Nothing to see.\<newline>'')) = Exited 1
   \<and> stderr (snd (updateReadme (exampleEnv [] Threw) ''README.md''
            ''The following is auto-generated from'' None
            (disk ''# Title\<newline>\<newline>Nothing to see.\<newline>'')))
      = [''Could not find any '' @ [CHR 0x22] @ ''The following is auto-generated from''
         @ [CHR 0x22] @ '' markers in README.md'']
   \<and> files (snd (updateReadme (exampleEnv [] Threw) ''README.md''
            ''The following is auto-generated from'' None
            (disk ''# Title\<newline>\<newline>Nothing to see.\<newline>'')))
      = files (disk ''# Title\<newline>\<newline>Nothing to see.\<newline>'')"
proof -
  let ?readme = "''# Title\<newline>\<newline>Nothing to see.\<newline>''"
  have f: "files (disk ?readme) ''README.md'' = Some ?readme" by (simp add: disk_def)
  have "\<not> includes_str ?readme ''The following is auto-generated from''" by simp
  then have none: "matchAll (markerRegex ''The following is auto-generated from'') ?readme = []"
    by (rule no_phrase_no_marker)
  from no_markers_exit [OF f none, of "exampleEnv [] Threw" None] f none
  show ?thesis by (simp add: disk_def)
qed


section \<open>The splice loop\<close>

text \<open>
  C3 fails on the code when the region of an earlier marker reaches beyond a later marker:
  \<open>contentEnd\<close> is an offset into the document as read, and the loop takes
  \<open>updatedReadme.substring(contentEnd)\<close> from the text that the later replacement has
  already changed. In \<open>nestedReadme\<close> the region of the first marker (base level 2) runs to
  the end of the document and contains the second marker (under a level-3 heading). After
  the pass the first region holds its own content followed by a torn tail of the
  documentation of the second file, not exactly its own freshly generated content.
\<close>

theorem nested_regions_torn_output:
  "fst (updateReadme (exampleEnv ''The universe and everything...'' (Returned [])) ''README.md''
          ''Docs for'' None (disk nestedReadme)) = Finished
   \<and> files (snd (updateReadme (exampleEnv ''The universe and everything...'' (Returned []))
                   ''README.md'' ''Docs for'' None (disk nestedReadme))) ''README.md''
     = Some (''## API\<newline>Docs for test/trivial.ts:\<newline>\<newline>''
             @ answerFragment ''The universe and everything...''
             @ ''lass\<newline>\<newline>**Constructor Parameters:**\<newline>\<newline>- `size`: The size\<newline>\<newline>''
             @ ''##### Box.create'' @ middot @ ''static method\<newline>\<newline>Make a box\<newline>\<newline>''
             @ ''**Signature:** `() => Box`\<newline>\<newline>**Parameters:**\<newline>\<newline>\<newline>''
             @ ''##### box.size'' @ middot @ ''property\<newline>\<newline>The size\<newline>\<newline>''
             @ ''**Type:** `number`\<newline>\<newline>'')"
  by code_simp



lemma repeat_hash: "repeat ''#'' n = replicate n (CHR ''#'')"
  by (induction n) (simp_all add: repeat_def)

lemma marker_match:
  assumes "scan (markerRegex p) t k = Some m"
  shows "rm_index m < rm_end m" and "rm_end m \<le> length t"
    and "rm_full m = substring t (rm_index m) (rm_end m)"
    and "contentStart m = rm_end m"
    and "\<exists>g3 g4. rm_groups m 3 = Some g3 \<and> rm_groups m 4 = Some g4 \<and>
        ((rm_groups m 1 = None \<and> rm_groups m 2 = None \<and> rm_full m = g3) \<or>
         (\<exists>n w. 1 \<le> n \<and> n \<le> 6 \<and> w \<noteq> [] \<and> rm_groups m 2 = Some (replicate n (CHR ''#''))
                \<and> rm_groups m 1 = Some (replicate n (CHR ''#'') @ w)
                \<and> rm_full m = replicate n (CHR ''#'') @ w @ g3))"
proof -
  from scan_ends [OF assms] have
    e: "(rm_end m, rm_groups m) \<in> set (ends (markerRegex p) t (rm_index m) Map.empty)"
    and f: "rm_full m = substring t (rm_index m) (rm_end m)" by auto
  note me = marker_ends [OF e]
  from me show lt: "rm_index m < rm_end m" and le: "rm_end m \<le> length t" by auto
  show "rm_full m = substring t (rm_index m) (rm_end m)" by (rule f)
  show "contentStart m = rm_end m"
    using lt le by (simp add: contentStart_def f length_substring)
  from me show "\<exists>g3 g4. rm_groups m 3 = Some g3 \<and> rm_groups m 4 = Some g4 \<and>
        ((rm_groups m 1 = None \<and> rm_groups m 2 = None \<and> rm_full m = g3) \<or>
         (\<exists>n w. 1 \<le> n \<and> n \<le> 6 \<and> w \<noteq> [] \<and> rm_groups m 2 = Some (replicate n (CHR ''#''))
                \<and> rm_groups m 1 = Some (replicate n (CHR ''#'') @ w)
                \<and> rm_full m = replicate n (CHR ''#'') @ w @ g3))"
    unfolding f by blast
qed







section \<open>Heading depths\<close>

lemma headingDepth_hashes:
  "headingDepth (replicate n (CHR ''#'') @ '' '' @ rest) = n"
  by (induction n) (simp_all add: headingDepth_def)

lemma symbol_heading:
  "generateSymbolDoc e name s chk prefix sf repoUrl = Inr doc \<Longrightarrow>
     \<exists>rest. doc = prefix @ '' '' @ rest"
  by (auto simp: generateSymbolDoc_def Let_def split: prod.splits option.splits sum.splits)

lemma member_heading:
  "generateClassMemberDoc e m chk isStatic prefix className sf repoUrl = Inr piece \<Longrightarrow>
     \<exists>rest. piece = (prefix @ ''#'') @ '' '' @ rest"
  by (auto simp: generateClassMemberDoc_def Let_def split: sum.splits)

lemma class_pieces:
  assumes "d_kind d \<noteq> VariableDeclaration"
    and "generateClassDoc e d ts chk prefix className sf repoUrl = Inr doc"
  shows "\<exists>header pieces. doc = header @ concat pieces
     \<and> list_all2 (\<lambda>m piece. generateClassMemberDoc e m chk (m \<in> set (staticMembers d)) prefix
                                className sf repoUrl = Inr piece)
           (staticMembers d @ instanceMembers d) pieces"
  using assms collect_pieces
    [of "\<lambda>m. generateClassMemberDoc e m chk (m \<in> set (staticMembers d)) prefix className sf repoUrl"
        "staticMembers d @ instanceMembers d" _ doc]
  unfolding generateClassDoc_def Let_def by (simp only: if_False) blast

lemma marker_heading_group:
  assumes "m \<in> set (matchAll (markerRegex p) t)"
  shows "rm_groups m 2 = None \<or> (\<exists>n. 1 \<le> n \<and> n \<le> 6 \<and> rm_groups m 2 = Some (replicate n (CHR ''#'')))"
proof -
  from assms matchAllFrom_scan [of m "markerRegex p" t 0] obtain k where
    "scan (markerRegex p) t k = Some m" by (auto simp: matchAll_def)
  from marker_match(5) [OF this] show ?thesis by blast
qed

text \<open>
  C7. For every marker, the base heading level is the number of hashes of the heading
  captured before it (between 1 and 6) and 2 when none is captured; the heading prefix of
  the generated content is one hash longer; every rendered symbol starts with a heading of
  depth base + 1, every member fragment with a heading of depth base + 2, and the
  rendering of a class or interface is its class-level blocks followed by one such member
  fragment per rendered member.
\<close>

theorem heading_depths:
  assumes "m \<in> set (matchAll (markerRegex searchPhrase) readme)"
  shows "(rm_groups m 2 = None \<longrightarrow> baseHeadingLevel m = 2)
    \<and> (\<forall>h. rm_groups m 2 = Some h
          \<longrightarrow> baseHeadingLevel m = length h \<and> h = replicate (length h) (CHR ''#'')
              \<and> 1 \<le> length h \<and> length h \<le> 6)
    \<and> headingPrefix m = replicate (baseHeadingLevel m + 1) (CHR ''#'')
    \<and> (\<forall>doc. generateSymbolDoc e name s chk (headingPrefix m) sf repoUrl = Inr doc
          \<longrightarrow> headingDepth doc = baseHeadingLevel m + 1)
    \<and> (\<forall>piece. generateClassMemberDoc e member chk isStatic (headingPrefix m) className sf
                  repoUrl = Inr piece
          \<longrightarrow> headingDepth piece = baseHeadingLevel m + 2)
    \<and> (\<forall>doc. d_kind d \<noteq> VariableDeclaration
              \<and> generateClassDoc e d ts chk (headingPrefix m) className sf repoUrl = Inr doc
          \<longrightarrow> (\<exists>header pieces.
                 doc = header @ concat pieces
                 \<and> length pieces = length (staticMembers d @ instanceMembers d)
                 \<and> (\<forall>piece \<in> set pieces. headingDepth piece = baseHeadingLevel m + 2)))"
proof -
  let ?b = "baseHeadingLevel m"
  have prefix: "headingPrefix m = replicate (?b + 1) (CHR ''#'')"
    by (simp add: headingPrefix_def repeat_hash)
  have member: "headingDepth piece = ?b + 2"
    if "generateClassMemberDoc e' mem chk' st (headingPrefix m) cn sf' url = Inr piece"
    for e' mem chk' st cn sf' url piece
  proof -
    from member_heading [OF that] obtain rest where
      "piece = (replicate (?b + 1) (CHR ''#'') @ ''#'') @ '' '' @ rest"
      unfolding prefix by blast
    then have "piece = replicate (?b + 2) (CHR ''#'') @ '' '' @ rest"
      by (simp add: replicate_append_same)
    then show ?thesis by (simp only: headingDepth_hashes)
  qed
  have symbol: "headingDepth doc = ?b + 1"
    if "generateSymbolDoc e name s chk (headingPrefix m) sf repoUrl = Inr doc" for doc
  proof -
    from symbol_heading [OF that] obtain rest where
      "doc = replicate (?b + 1) (CHR ''#'') @ '' '' @ rest" unfolding prefix by blast
    then show ?thesis by (simp only: headingDepth_hashes)
  qed
  have cls: "\<exists>header pieces.
                 doc = header @ concat pieces
                 \<and> length pieces = length (staticMembers d @ instanceMembers d)
                 \<and> (\<forall>piece \<in> set pieces. headingDepth piece = ?b + 2)"
    if k: "d_kind d \<noteq> VariableDeclaration"
      and g: "generateClassDoc e d ts chk (headingPrefix m) className sf repoUrl = Inr doc"
    for doc
  proof -
    from class_pieces [OF k g] obtain header pieces where
      doc: "doc = header @ concat pieces" and
      all: "list_all2 (\<lambda>mem piece. generateClassMemberDoc e mem chk
                (mem \<in> set (staticMembers d)) (headingPrefix m) className sf repoUrl = Inr piece)
              (staticMembers d @ instanceMembers d) pieces"
      by blast
    from list_all2_lengthD [OF all]
    have len: "length pieces = length (staticMembers d @ instanceMembers d)" by simp
    have "headingDepth piece = ?b + 2" if "piece \<in> set pieces" for piece
    proof -
      from that obtain i where i: "i < length pieces" "pieces ! i = piece"
        by (auto simp: in_set_conv_nth)
      with all have "generateClassMemberDoc e ((staticMembers d @ instanceMembers d) ! i) chk
          ((staticMembers d @ instanceMembers d) ! i \<in> set (staticMembers d)) (headingPrefix m)
          className sf repoUrl = Inr piece"
        by (auto simp: list_all2_conv_all_nth)
      then show ?thesis by (rule member)
    qed
    with doc len show ?thesis by blast
  qed
  from marker_heading_group [OF assms]
  have base: "(rm_groups m 2 = None \<longrightarrow> ?b = 2)
    \<and> (\<forall>h. rm_groups m 2 = Some h
          \<longrightarrow> ?b = length h \<and> h = replicate (length h) (CHR ''#'')
              \<and> 1 \<le> length h \<and> length h \<le> 6)"
    by (auto simp: baseHeadingLevel_def)
  from base prefix symbol member cls show ?thesis by blast
qed

theorem heading_depths_witness:
  "hd (matchAll (markerRegex ''Docs for'') apiReadme)
     \<in> set (matchAll (markerRegex ''Docs for'') apiReadme)
   \<and> rm_groups (hd (matchAll (markerRegex ''Docs for'') apiReadme)) 2 = Some ''##''
   \<and> baseHeadingLevel (hd (matchAll (markerRegex ''Docs for'') apiReadme)) = 2
   \<and> headingPrefix (hd (matchAll (markerRegex ''Docs for'') apiReadme)) = ''###''
   \<and> generateSymbolDoc (exampleEnv [] (Returned [])) ''Box'' (symbolOf boxClass) boxChecker
        (headingPrefix (hd (matchAll (markerRegex ''Docs for'') apiReadme))) boxFile None
       = Inr (boxFragment 3)
   \<and> headingDepth (boxFragment 3) = 3
   \<and> generateClassMemberDoc (exampleEnv [] (Returned [])) (hd (staticMembers boxClass))
        boxChecker True (headingPrefix (hd (matchAll (markerRegex ''Docs for'') apiReadme)))
        ''Box'' boxFile None
       = Inr (''#### Box.create'' @ middot @ ''static method\<newline>\<newline>Make a box\<newline>\<newline>''
              @ ''**Signature:** `() => Box`\<newline>\<newline>**Parameters:**\<newline>\<newline>\<newline>'')
   \<and> headingDepth (''#### Box.create'' @ middot @ ''static method\<newline>\<newline>Make a box\<newline>\<newline>''
              @ ''**Signature:** `() => Box`\<newline>\<newline>**Parameters:**\<newline>\<newline>\<newline>'') = 4
   \<and> d_kind boxClass \<noteq> VariableDeclaration
   \<and> (\<exists>doc header pieces.
         generateClassDoc (exampleEnv [] (Returned [])) boxClass ''typeof Box'' boxChecker
           (headingPrefix (hd (matchAll (markerRegex ''Docs for'') apiReadme))) ''Box'' boxFile
           None = Inr doc
         \<and> doc = header @ concat pieces \<and> length pieces = 2
         \<and> (\<forall>piece \<in> set pieces. headingDepth piece = 4))
   \<and> hd (matchAll (markerRegex ''Docs for'') bareReadme)
     \<in> set (matchAll (markerRegex ''Docs for'') bareReadme)
   \<and> rm_groups (hd (matchAll (markerRegex ''Docs for'') bareReadme)) 2 = None
   \<and> baseHeadingLevel (hd (matchAll (markerRegex ''Docs for'') bareReadme)) = 2"
proof -
  let ?e = "exampleEnv [] (Returned [])"
  let ?m = "hd (matchAll (markerRegex ''Docs for'') apiReadme)"
  let ?m' = "hd (matchAll (markerRegex ''Docs for'') bareReadme)"
  let ?create = "''#### Box.create'' @ middot @ ''static method\<newline>\<newline>Make a box\<newline>\<newline>''
              @ ''**Signature:** `() => Box`\<newline>\<newline>**Parameters:**\<newline>\<newline>\<newline>''"
  have "length (matchAll (markerRegex ''Docs for'') apiReadme) = 1" by code_simp
  then have "matchAll (markerRegex ''Docs for'') apiReadme \<noteq> []" by auto
  then have m: "?m \<in> set (matchAll (markerRegex ''Docs for'') apiReadme)" by (rule hd_in_set)
  have "length (matchAll (markerRegex ''Docs for'') bareReadme) = 1" by code_simp
  then have "matchAll (markerRegex ''Docs for'') bareReadme \<noteq> []" by auto
  then have m': "?m' \<in> set (matchAll (markerRegex ''Docs for'') bareReadme)" by (rule hd_in_set)
  have g2: "rm_groups ?m 2 = Some ''##''" by code_simp
  have g2': "rm_groups ?m' 2 = None" by code_simp
  have sym: "generateSymbolDoc ?e ''Box'' (symbolOf boxClass) boxChecker (headingPrefix ?m)
      boxFile None = Inr (boxFragment 3)" by code_simp
  have mem: "generateClassMemberDoc ?e (hd (staticMembers boxClass)) boxChecker True
      (headingPrefix ?m) ''Box'' boxFile None = Inr ?create" by code_simp
  have k: "d_kind boxClass \<noteq> VariableDeclaration" by (simp add: boxClass_def)
  have "\<exists>doc. generateClassDoc ?e boxClass ''typeof Box'' boxChecker (headingPrefix ?m) ''Box''
      boxFile None = Inr doc" by (rule class_no_url)
  then obtain doc where cls: "generateClassDoc ?e boxClass ''typeof Box'' boxChecker
      (headingPrefix ?m) ''Box'' boxFile None = Inr doc" by blast
  have shown: "length (staticMembers boxClass @ instanceMembers boxClass) = 2" by code_simp
  note a = heading_depths [OF m, of ?e "''Box''" "symbolOf boxClass" boxChecker boxFile None
      "hd (staticMembers boxClass)" True "''Box''" boxClass "''typeof Box''"]
  note b = heading_depths [OF m', of ?e "''Box''" "symbolOf boxClass" boxChecker boxFile None
      "hd (staticMembers boxClass)" True "''Box''" boxClass "''typeof Box''"]
  from a g2 have base: "baseHeadingLevel ?m = 2" by simp
  from a base have prefix: "headingPrefix ?m = ''###''" by (simp add: numeral_3_eq_3)
  from a sym base have d1: "headingDepth (boxFragment 3) = 3" by simp
  from a mem base have d2: "headingDepth ?create = 4" by simp
  from a k cls base shown have d3: "\<exists>header pieces. doc = header @ concat pieces
      \<and> length pieces = 2 \<and> (\<forall>piece \<in> set pieces. headingDepth piece = 4)"
    by simp
  with cls have d3': "\<exists>doc header pieces.
         generateClassDoc ?e boxClass ''typeof Box'' boxChecker (headingPrefix ?m) ''Box''
           boxFile None = Inr doc
         \<and> doc = header @ concat pieces \<and> length pieces = 2
         \<and> (\<forall>piece \<in> set pieces. headingDepth piece = 4)" by blast
  from b g2' have base': "baseHeadingLevel ?m' = 2" by simp
  show ?thesis
    by (intro conjI m g2 base prefix sym d1 mem d2 k d3' m' g2' base')
qed

end
